theory Spec2Isabelle
  imports Complex_Main
begin

section \<open>Exceptions and results\<close>

text \<open>
  The two scripts are \<^verbatim>\<open>ot2plr.py\<close> and the NF-kB luciferase reporter assay script of the
  same directory. A Python exception is a value of \<open>exn\<close>; a computation that may raise
  returns \<open>exn + 'a\<close>, with \<open>Inl\<close> the exception. \<open>UnboundLocalError\<close> is a subclass of
  \<open>NameError\<close> in Python, which \<open>is_NameError\<close> records.
\<close>

datatype exn =
    NameError string
  | UnboundLocalError string
  | RuntimeError string
  | StopIteration
  | IndexError
  | TypeError
  | LibraryError string

fun is_NameError :: "exn \<Rightarrow> bool" where
  "is_NameError (NameError _) = True"
| "is_NameError (UnboundLocalError _) = True"
| "is_NameError _ = False"

section \<open>User-configurable constants\<close>

definition MEDIUM_VOL :: int where "MEDIUM_VOL = 100"
definition PBS_VOL :: int where "PBS_VOL = 50"
definition LYSIS_VOL :: int where "LYSIS_VOL = 30"
definition LUC_VOL :: int where "LUC_VOL = 100"
definition TOTAL_COL :: int where "TOTAL_COL = 12"

section \<open>The tip generator\<close>

text \<open>
  \<^verbatim>\<open>_tip_gen(tip_racks)\<close> is a generator function: calling it creates a generator object
  whose body has not started; each \<^verbatim>\<open>next\<close> resumes the body until the next \<^verbatim>\<open>yield\<close>.
  A rack is the list of tips that iterating over it yields. The generator's state is the
  point where its body is suspended:
  \<^item> \<open>Rack_loop rs\<close>: at the head of the outer loop, racks \<open>rs\<close> still to come
    (the body has not started when \<open>rs\<close> is the whole argument);
  \<^item> \<open>Tip_loop ts rs\<close>: at the \<^verbatim>\<open>yield\<close> in the inner loop, tips \<open>ts\<close> of the current
    rack and racks \<open>rs\<close> still to come;
  \<^item> \<open>Finished\<close>: the body has ended (here always by the \<^verbatim>\<open>raise\<close>); a later \<^verbatim>\<open>next\<close>
    raises \<open>StopIteration\<close>.
\<close>

datatype 'tip tip_gen =
    Rack_loop "'tip list list"
  | Tip_loop "'tip list" "'tip list list"
  | Finished

definition tip_gen :: "'tip list list \<Rightarrow> 'tip tip_gen" where
  "tip_gen tip_racks = Rack_loop tip_racks"

function py_next :: "'tip tip_gen \<Rightarrow> (exn + 'tip) \<times> 'tip tip_gen" where
  "py_next (Rack_loop []) = (Inl (RuntimeError ''Out of tips!''), Finished)"
| "py_next (Rack_loop (rack # racks)) = py_next (Tip_loop rack racks)"
| "py_next (Tip_loop [] racks) = py_next (Rack_loop racks)"
| "py_next (Tip_loop (tip # rack) racks) = (Inr tip, Tip_loop rack racks)"
| "py_next Finished = (Inl StopIteration, Finished)"
  by pat_completeness auto
termination
  by (relation "measure (\<lambda>g. case g of Rack_loop rs \<Rightarrow> 2 * length rs
                                     | Tip_loop ts rs \<Rightarrow> 2 * length rs + 1
                                     | Finished \<Rightarrow> 0)") auto

text \<open>\<open>next_n n g\<close>: the results of \<open>n\<close> successive \<^verbatim>\<open>next\<close> calls and the generator after them.\<close>

fun next_n :: "nat \<Rightarrow> 'tip tip_gen \<Rightarrow> (exn + 'tip) list \<times> 'tip tip_gen" where
  "next_n 0 g = ([], g)"
| "next_n (Suc n) g =
     (case py_next g of (r, g') \<Rightarrow> (case next_n n g' of (rs, g'') \<Rightarrow> (r # rs, g'')))"

text \<open>The tips a generator has still to yield, in the order it yields them.\<close>

fun remaining :: "'tip tip_gen \<Rightarrow> 'tip list" where
  "remaining (Rack_loop rs) = concat rs"
| "remaining (Tip_loop ts rs) = ts @ concat rs"
| "remaining Finished = []"

section \<open>Hardware primitives and the state of a run\<close>

text \<open>
  The liquid handler and its backend are outside the scripts. A call of one of their
  methods is recorded, with its arguments, in the trace of the run and returns normally;
  what the driver does with it is not modelled. Volumes, flow rates and offsets are
  Python ints and floats; they are modelled as exact reals. The two products the steps
  compute, \<^verbatim>\<open>MEDIUM_VOL * 1.2\<close> and \<^verbatim>\<open>PBS_VOL * 1.5\<close>, are 120.0 and 75.0 in Python's
  floats as well.

  \<open>Coordinate x y z\<close> holds the keyword arguments of a \<^verbatim>\<open>Coordinate(...)\<close> call, \<open>None\<close>
  for a keyword the call leaves out. The last argument of \<open>Aspirate\<close>, \<open>Dispense\<close> and
  \<open>Mix\<close> is the \<^verbatim>\<open>offset\<close> keyword, \<open>None\<close> when the call passes none; the argument
  before it is \<^verbatim>\<open>flow_rate\<close>.
\<close>

datatype coordinate = Coordinate "real option" "real option" "real option"

datatype ('tip, 'well) primitive =
    Setup
  | Pick_up_tips 'tip
  | Aspirate 'well real real "coordinate option"
  | Dispense 'well real real "coordinate option"
  | Air_gap real
  | Mix 'well real nat real "coordinate option"
  | Delay_seconds real
  | Delay_minutes real
  | Drop_tips
  | Finish

record ('tip, 'well) state =
  tips :: "'tip tip_gen"
  trace :: "('tip, 'well) primitive list"

type_synonym ('a, 'tip, 'well) action =
  "('tip, 'well) state \<Rightarrow> (exn + 'a) \<times> ('tip, 'well) state"

text \<open>Sequencing: an exception ends the run, the state reached so far is kept.\<close>

definition and_then ::
  "('a, 'tip, 'well) action \<Rightarrow> ('a \<Rightarrow> ('b, 'tip, 'well) action) \<Rightarrow> ('b, 'tip, 'well) action" where
  "and_then m f s = (case m s of (Inl e, s') \<Rightarrow> (Inl e, s') | (Inr v, s') \<Rightarrow> f v s')"

fun run_all :: "('s \<Rightarrow> (exn + unit) \<times> 's) list \<Rightarrow> 's \<Rightarrow> (exn + unit) \<times> 's" where
  "run_all [] s = (Inr (), s)"
| "run_all (a # as) s =
     (case a s of (Inl e, s') \<Rightarrow> (Inl e, s') | (Inr _, s') \<Rightarrow> run_all as s')"

fun for_each :: "('a \<Rightarrow> 's \<Rightarrow> (exn + unit) \<times> 's) \<Rightarrow> 'a list \<Rightarrow> 's \<Rightarrow> (exn + unit) \<times> 's" where
  "for_each body [] s = (Inr (), s)"
| "for_each body (v # vs) s =
     (case body v s of (Inl e, s') \<Rightarrow> (Inl e, s') | (Inr _, s') \<Rightarrow> for_each body vs s')"

definition issue :: "('tip, 'well) primitive \<Rightarrow> (unit, 'tip, 'well) action" where
  "issue p s = (Inr (), s\<lparr>trace := trace s @ [p]\<rparr>)"

text \<open>\<^verbatim>\<open>next(tips)\<close> on the generator of the run.\<close>

definition next_tips :: "('tip, 'tip, 'well) action" where
  "next_tips s = (case py_next (tips s) of (r, g) \<Rightarrow> (r, s\<lparr>tips := g\<rparr>))"

section \<open>The five steps of \<^verbatim>\<open>run\<close> in \<^verbatim>\<open>ot2plr.py\<close>\<close>

text \<open>Step 1, remove spent medium: the body of the loop, for one cell, and the loop.\<close>

definition remove_spent_medium_cell :: "'well \<Rightarrow> 'well \<Rightarrow> (unit, 'tip, 'well) action" where
  "remove_spent_medium_cell waste cell =
     and_then next_tips (\<lambda>tip. run_all
       [issue (Pick_up_tips tip),
        issue (Aspirate cell (real_of_int MEDIUM_VOL * 1.2) 0.2
                 (Some (Coordinate (Some (- 2.5)) (Some 0) (Some 0.2)))),
        issue (Dispense waste (real_of_int MEDIUM_VOL * 1.2) 3
                 (Some (Coordinate None None (Some (- 5))))),
        issue Drop_tips])"

definition remove_spent_medium :: "'well \<Rightarrow> 'well list \<Rightarrow> (unit, 'tip, 'well) action" where
  "remove_spent_medium waste cells_all = for_each (remove_spent_medium_cell waste) cells_all"

text \<open>Step 2, PBS wash (add): one tip picked up before the loop and dropped after it.\<close>

definition pbs_wash_add_cell :: "'well \<Rightarrow> 'well \<Rightarrow> (unit, 'tip, 'well) action" where
  "pbs_wash_add_cell pbs cell = run_all
     [issue (Aspirate pbs (real_of_int PBS_VOL) 3 None),
      issue (Air_gap 20),
      issue (Dispense cell (real_of_int (PBS_VOL + 20)) 0.3
               (Some (Coordinate None None (Some (- 2)))))]"

definition pbs_wash_add :: "'well \<Rightarrow> 'well list \<Rightarrow> (unit, 'tip, 'well) action" where
  "pbs_wash_add pbs cells_all = run_all
     [and_then next_tips (\<lambda>tip. issue (Pick_up_tips tip)),
      for_each (pbs_wash_add_cell pbs) cells_all,
      issue Drop_tips]"

text \<open>Step 3, PBS wash (remove).\<close>

definition pbs_wash_remove_cell :: "'well \<Rightarrow> 'well \<Rightarrow> (unit, 'tip, 'well) action" where
  "pbs_wash_remove_cell waste cell =
     and_then next_tips (\<lambda>tip. run_all
       [issue (Pick_up_tips tip),
        issue (Aspirate cell (real_of_int PBS_VOL * 1.5) 0.2
                 (Some (Coordinate (Some (- 2.5)) (Some 0) (Some 0.2)))),
        issue (Dispense waste (real_of_int PBS_VOL * 1.5) 3
                 (Some (Coordinate None None (Some (- 5))))),
        issue Drop_tips])"

definition pbs_wash_remove :: "'well \<Rightarrow> 'well list \<Rightarrow> (unit, 'tip, 'well) action" where
  "pbs_wash_remove waste cells_all = for_each (pbs_wash_remove_cell waste) cells_all"

text \<open>Step 4, add lysis buffer, with the three-minute delay that closes it.\<close>

definition add_lysis_buffer_cell :: "'well \<Rightarrow> 'well \<Rightarrow> (unit, 'tip, 'well) action" where
  "add_lysis_buffer_cell lysis cell = run_all
     [issue (Aspirate lysis (real_of_int LYSIS_VOL) 0.5 None),
      issue (Delay_seconds 2),
      issue (Dispense cell (real_of_int LYSIS_VOL) 0.3
               (Some (Coordinate None None (Some 5)))),
      issue (Delay_seconds 2)]"

definition add_lysis_buffer :: "'well \<Rightarrow> 'well list \<Rightarrow> (unit, 'tip, 'well) action" where
  "add_lysis_buffer lysis cells_all = run_all
     [and_then next_tips (\<lambda>tip. issue (Pick_up_tips tip)),
      for_each (add_lysis_buffer_cell lysis) cells_all,
      issue Drop_tips,
      issue (Delay_minutes 3)]"

text \<open>Step 5, add luciferase reagent: the tip is picked up and dropped inside the loop.\<close>

definition add_luciferase_reagent_cell :: "'well \<Rightarrow> 'well \<Rightarrow> (unit, 'tip, 'well) action" where
  "add_luciferase_reagent_cell luciferase cell =
     and_then next_tips (\<lambda>tip. run_all
       [issue (Pick_up_tips tip),
        issue (Aspirate luciferase (real_of_int LUC_VOL) 0.75 None),
        issue (Delay_seconds 2),
        issue (Dispense cell (real_of_int LUC_VOL) 0.75
                 (Some (Coordinate None None (Some (- 0.5))))),
        issue (Mix cell 75 3 3 (Some (Coordinate None None (Some 0.5)))),
        issue Drop_tips])"

definition add_luciferase_reagent :: "'well \<Rightarrow> 'well list \<Rightarrow> (unit, 'tip, 'well) action" where
  "add_luciferase_reagent luciferase cells_all =
     for_each (add_luciferase_reagent_cell luciferase) cells_all"

text \<open>
  The statements of \<^verbatim>\<open>run\<close> from \<^verbatim>\<open>lh.setup()\<close> to \<^verbatim>\<open>lh.finish()\<close>, over the local
  variables they read.
\<close>

definition protocol_steps ::
  "'well \<Rightarrow> 'well \<Rightarrow> 'well \<Rightarrow> 'well \<Rightarrow> 'well list \<Rightarrow> (unit, 'tip, 'well) action" where
  "protocol_steps pbs lysis luciferase waste cells_all = run_all
     [issue Setup,
      remove_spent_medium waste cells_all,
      pbs_wash_add pbs cells_all,
      pbs_wash_remove waste cells_all,
      add_lysis_buffer lysis cells_all,
      add_luciferase_reagent luciferase cells_all,
      issue Finish]"

section \<open>The deck and the aliases of \<^verbatim>\<open>run\<close>\<close>

text \<open>
  A labware object is read by the scripts through \<^verbatim>\<open>.wells()\<close> and \<^verbatim>\<open>.rows()\<close> only, and
  a tip rack by iterating over it; the record holds what these return. The geometry of
  the labware is the library's and stays a parameter. \<open>deck\<close> is the dictionary that
  \<^verbatim>\<open>_build_deck\<close> returns.
\<close>

record 'well labware =
  wells :: "'well list"
  rows :: "'well list list"

record ('tip, 'well) deck =
  tip_racks :: "'tip list list"
  working_plate :: "'well labware"
  reagent_res :: "'well labware"
  waste_res :: "'well labware"

text \<open>\<^verbatim>\<open>xs[i]\<close> for an index that is not negative, and the slice \<^verbatim>\<open>xs[:k]\<close>.\<close>

definition getitem :: "'a list \<Rightarrow> nat \<Rightarrow> exn + 'a" where
  "getitem xs i = (if i < length xs then Inr (xs ! i) else Inl IndexError)"

definition slice_to :: "'a list \<Rightarrow> int \<Rightarrow> 'a list" where
  "slice_to xs k = (if 0 \<le> k then take (nat k) xs else take (nat (int (length xs) + k)) xs)"

text \<open>\<^verbatim>\<open>plate.rows()[0][:total_col]\<close>, the sample columns of the run.\<close>

definition sample_columns :: "'well labware \<Rightarrow> int \<Rightarrow> exn + 'well list" where
  "sample_columns plate total_col =
     (case getitem (rows plate) 0 of
        Inl e \<Rightarrow> Inl e
      | Inr row \<Rightarrow> Inr (slice_to row total_col))"

text \<open>
  \<^verbatim>\<open>run\<close> from the statement after \<^verbatim>\<open>deck = _build_deck(lh)\<close> to its end: the generator,
  the aliases (an exception there comes before any primitive), the steps. The result is
  the outcome of the run and the primitives issued.
\<close>

definition run_from_deck ::
  "('tip, 'well) deck \<Rightarrow> (exn + unit) \<times> ('tip, 'well) primitive list" where
  "run_from_deck deck =
     (let tips0 = tip_gen (tip_racks deck) in
      case getitem (wells (reagent_res deck)) 0 of Inl e \<Rightarrow> (Inl e, []) | Inr pbs \<Rightarrow>
      case getitem (wells (reagent_res deck)) 1 of Inl e \<Rightarrow> (Inl e, []) | Inr lysis \<Rightarrow>
      case getitem (wells (reagent_res deck)) 2 of Inl e \<Rightarrow> (Inl e, []) | Inr luciferase \<Rightarrow>
      case getitem (wells (waste_res deck)) 0 of Inl e \<Rightarrow> (Inl e, []) | Inr waste \<Rightarrow>
      case sample_columns (working_plate deck) TOTAL_COL of Inl e \<Rightarrow> (Inl e, []) | Inr cells_all \<Rightarrow>
      case protocol_steps pbs lysis luciferase waste cells_all \<lparr>tips = tips0, trace = []\<rparr> of
        (r, s) \<Rightarrow> (r, trace s))"

section \<open>Names, the library and \<^verbatim>\<open>_build_deck\<close>\<close>

text \<open>
  A local variable of a Python function is unbound until the function assigns it; reading
  it before raises \<^verbatim>\<open>UnboundLocalError\<close>. \<open>load_fast name v\<close> reads the local \<open>name\<close> whose
  slot holds \<open>v\<close>, \<open>None\<close> while it is unbound. A name that a function never assigns is
  global: \<open>load_global\<close> looks it up in the module's namespace, then among the builtins,
  and raises \<^verbatim>\<open>NameError\<close> when neither binds it.
\<close>

definition load_fast :: "string \<Rightarrow> 'a option \<Rightarrow> exn + 'a" where
  "load_fast name v = (case v of None \<Rightarrow> Inl (UnboundLocalError name) | Some val \<Rightarrow> Inr val)"

definition continue_with :: "exn + 'a \<Rightarrow> ('a \<Rightarrow> exn + 'b) \<Rightarrow> exn + 'b" where
  "continue_with r f = (case r of Inl e \<Rightarrow> Inl e | Inr v \<Rightarrow> f v)"

text \<open>
  The pylabrobot library and the helper class \<^verbatim>\<open>DPLiquidHandler\<close> are not part of the
  scripts: they are parameters, gathered in \<open>library\<close>. Every call into the library may
  raise. The handler \<open>'lh\<close> carries the deck, which \<^verbatim>\<open>assign_child_resource\<close> changes.
  The argument of a labware constructor is the value passed as \<^verbatim>\<open>name=\<close>; the value that
  \<^verbatim>\<open>assign_child_resource\<close> returns is read by \<^verbatim>\<open>_tip_gen\<close> as a rack, so it is
  represented by the tips that iterating over it yields. \<open>transfer_kwargs\<close> holds the
  keyword arguments of \<^verbatim>\<open>remove_liquid\<close> and \<^verbatim>\<open>add_liquid\<close>, \<open>None\<close> for a keyword a call
  leaves out.
\<close>

datatype ('tip, 'well) name_arg =
    Name_string string
  | Name_racks "'tip list list"
  | Name_labware "'well labware"

datatype ('tip, 'well) resource = Rack "'tip list" | Labware "'well labware"

datatype 'loc placement = Slot int | Location 'loc

record ('tip, 'well) transfer_kwargs =
  kw_vols :: "real list"
  kw_sources :: "'well list option"
  kw_targets :: "'well list option"
  kw_reagent_sources :: "'well list option"
  kw_tip_racks :: "'tip list list"
  kw_offsets :: "coordinate list option"
  kw_liquid_height :: "real option list option"
  kw_flow_rates :: "real list option"
  kw_delays :: "real list option"
  kw_blow_out_air_volume :: "real option list option"
  kw_mix_time :: "real list option"
  kw_mix_vols :: "real list option"
  kw_mix_liquid_height :: "real list option"

record ('backend, 'lh, 'loc, 'tip, 'well) library =
  OpentronsBackend :: "bool \<Rightarrow> exn + 'backend"
  LiquidHandler :: "'backend \<Rightarrow> exn + 'lh"
  DPLiquidHandler :: "'backend \<Rightarrow> exn + 'lh"
  opentrons_96_tiprack_300ul :: "('tip, 'well) name_arg \<Rightarrow> exn + 'tip list"
  corning_96_wellplate_360ul_flat :: "('tip, 'well) name_arg \<Rightarrow> exn + 'well labware"
  nest_12_reservoir_15ml :: "('tip, 'well) name_arg \<Rightarrow> exn + 'well labware"
  nest_1_reservoir_195ml :: "('tip, 'well) name_arg \<Rightarrow> exn + 'well labware"
  assign_child_resource ::
    "('tip, 'well) resource \<Rightarrow> 'loc placement \<Rightarrow> 'lh \<Rightarrow> exn + 'tip list \<times> 'lh"
  get_slot :: "int \<Rightarrow> 'lh \<Rightarrow> exn + 'loc"
  remove_liquid ::
    "('tip, 'well) transfer_kwargs \<Rightarrow> ('tip, 'well) primitive list
       \<Rightarrow> (exn + unit) \<times> ('tip, 'well) primitive list"
  add_liquid ::
    "('tip, 'well) transfer_kwargs \<Rightarrow> ('tip, 'well) primitive list
       \<Rightarrow> (exn + unit) \<times> ('tip, 'well) primitive list"

text \<open>
  The locals of \<^verbatim>\<open>_build_deck\<close>: the parameter \<^verbatim>\<open>lh\<close>, bound by the call, and the six names
  the body assigns, unbound on entry.
\<close>

record ('lh, 'tip, 'well) locals =
  var_lh :: 'lh
  var_tiprack_slots :: "int list option"
  var_tiprack_i :: "'tip list option"
  var_tiprack :: "'tip list list option"
  var_working_plate :: "'well labware option"
  var_reagent_stock :: "'well labware option"
  var_waste_res :: "'well labware option"

definition entry_locals :: "'lh \<Rightarrow> ('lh, 'tip, 'well) locals" where
  "entry_locals lh =
     \<lparr>var_lh = lh, var_tiprack_slots = None, var_tiprack_i = None, var_tiprack = None,
      var_working_plate = None, var_reagent_stock = None, var_waste_res = None\<rparr>"

text \<open>The statements of \<^verbatim>\<open>_build_deck\<close>, one definition each, in the order of the source.\<close>

definition set_tiprack_slots :: "('lh, 'tip, 'well) locals \<Rightarrow> exn + ('lh, 'tip, 'well) locals" where
  "set_tiprack_slots f = Inr (f\<lparr>var_tiprack_slots := Some [8, 11, 1, 4]\<rparr>)"

definition set_tiprack_i ::
  "('backend, 'lh, 'loc, 'tip, 'well) library \<Rightarrow> ('lh, 'tip, 'well) locals
     \<Rightarrow> exn + ('lh, 'tip, 'well) locals" where
  "set_tiprack_i lib f =
     continue_with (load_fast ''tiprack'' (var_tiprack f)) (\<lambda>tiprack.
     continue_with (opentrons_96_tiprack_300ul lib (Name_racks tiprack)) (\<lambda>rack.
     Inr (f\<lparr>var_tiprack_i := Some rack\<rparr>)))"

text \<open>The list comprehension: one \<^verbatim>\<open>assign_child_resource(tiprack_i, slot=slot_i)\<close> a slot.\<close>

fun assign_racks ::
  "('backend, 'lh, 'loc, 'tip, 'well) library \<Rightarrow> int list \<Rightarrow> ('lh, 'tip, 'well) locals
     \<Rightarrow> exn + 'tip list list \<times> ('lh, 'tip, 'well) locals" where
  "assign_racks lib [] f = Inr ([], f)"
| "assign_racks lib (slot_i # slots) f =
     continue_with (load_fast ''tiprack_i'' (var_tiprack_i f)) (\<lambda>tiprack_i.
     continue_with (assign_child_resource lib (Rack tiprack_i) (Slot slot_i) (var_lh f))
       (\<lambda>(returned, lh').
     continue_with (assign_racks lib slots (f\<lparr>var_lh := lh'\<rparr>)) (\<lambda>(rest, f').
     Inr (returned # rest, f'))))"

definition set_tiprack ::
  "('backend, 'lh, 'loc, 'tip, 'well) library \<Rightarrow> ('lh, 'tip, 'well) locals
     \<Rightarrow> exn + ('lh, 'tip, 'well) locals" where
  "set_tiprack lib f =
     continue_with (load_fast ''tiprack_slots'' (var_tiprack_slots f)) (\<lambda>tiprack_slots.
     continue_with (assign_racks lib tiprack_slots f) (\<lambda>(returned, f').
     Inr (f'\<lparr>var_tiprack := Some returned\<rparr>)))"

definition set_working_plate ::
  "('backend, 'lh, 'loc, 'tip, 'well) library \<Rightarrow> ('lh, 'tip, 'well) locals
     \<Rightarrow> exn + ('lh, 'tip, 'well) locals" where
  "set_working_plate lib f =
     continue_with (corning_96_wellplate_360ul_flat lib (Name_string ''working_plate''))
       (\<lambda>plate.
     Inr (f\<lparr>var_working_plate := Some plate\<rparr>))"

definition place_working_plate ::
  "('backend, 'lh, 'loc, 'tip, 'well) library \<Rightarrow> ('lh, 'tip, 'well) locals
     \<Rightarrow> exn + ('lh, 'tip, 'well) locals" where
  "place_working_plate lib f =
     continue_with (load_fast ''working_plate'' (var_working_plate f)) (\<lambda>working_plate.
     continue_with (assign_child_resource lib (Labware working_plate) (Slot 6) (var_lh f))
       (\<lambda>(returned, lh').
     Inr (f\<lparr>var_lh := lh'\<rparr>)))"

definition set_reagent_stock ::
  "('backend, 'lh, 'loc, 'tip, 'well) library \<Rightarrow> ('lh, 'tip, 'well) locals
     \<Rightarrow> exn + ('lh, 'tip, 'well) locals" where
  "set_reagent_stock lib f =
     continue_with (load_fast ''reagent_stock'' (var_reagent_stock f)) (\<lambda>reagent_stock.
     continue_with (nest_12_reservoir_15ml lib (Name_labware reagent_stock)) (\<lambda>reservoir.
     Inr (f\<lparr>var_reagent_stock := Some reservoir\<rparr>)))"

definition place_reagent_stock ::
  "('backend, 'lh, 'loc, 'tip, 'well) library \<Rightarrow> ('lh, 'tip, 'well) locals
     \<Rightarrow> exn + ('lh, 'tip, 'well) locals" where
  "place_reagent_stock lib f =
     continue_with (load_fast ''reagent_stock'' (var_reagent_stock f)) (\<lambda>reagent_stock.
     continue_with (assign_child_resource lib (Labware reagent_stock) (Slot 3) (var_lh f))
       (\<lambda>(returned, lh').
     Inr (f\<lparr>var_lh := lh'\<rparr>)))"

definition set_waste_res ::
  "('backend, 'lh, 'loc, 'tip, 'well) library \<Rightarrow> ('lh, 'tip, 'well) locals
     \<Rightarrow> exn + ('lh, 'tip, 'well) locals" where
  "set_waste_res lib f =
     continue_with (load_fast ''waste_res'' (var_waste_res f)) (\<lambda>waste_res.
     continue_with (nest_1_reservoir_195ml lib (Name_labware waste_res)) (\<lambda>reservoir.
     Inr (f\<lparr>var_waste_res := Some reservoir\<rparr>)))"

definition place_waste_res ::
  "('backend, 'lh, 'loc, 'tip, 'well) library \<Rightarrow> ('lh, 'tip, 'well) locals
     \<Rightarrow> exn + ('lh, 'tip, 'well) locals" where
  "place_waste_res lib f =
     continue_with (load_fast ''waste_res'' (var_waste_res f)) (\<lambda>waste_res.
     continue_with (get_slot lib 9 (var_lh f)) (\<lambda>location.
     continue_with (assign_child_resource lib (Labware waste_res) (Location location) (var_lh f))
       (\<lambda>(returned, lh').
     Inr (f\<lparr>var_lh := lh'\<rparr>))))"

definition return_deck :: "('lh, 'tip, 'well) locals \<Rightarrow> exn + ('tip, 'well) deck" where
  "return_deck f =
     continue_with (load_fast ''tiprack'' (var_tiprack f)) (\<lambda>tiprack.
     continue_with (load_fast ''working_plate'' (var_working_plate f)) (\<lambda>working_plate.
     continue_with (load_fast ''reagent_stock'' (var_reagent_stock f)) (\<lambda>reagent_stock.
     continue_with (load_fast ''waste_res'' (var_waste_res f)) (\<lambda>waste_res.
     Inr \<lparr>tip_racks = tiprack, working_plate = working_plate,
          reagent_res = reagent_stock, waste_res = waste_res\<rparr>))))"

fun statements :: "('f \<Rightarrow> exn + 'f) list \<Rightarrow> 'f \<Rightarrow> exn + 'f" where
  "statements [] f = Inr f"
| "statements (st # sts) f = continue_with (st f) (statements sts)"

definition build_deck ::
  "('backend, 'lh, 'loc, 'tip, 'well) library \<Rightarrow> 'lh \<Rightarrow> exn + ('tip, 'well) deck" where
  "build_deck lib lh =
     continue_with
       (statements
          [set_tiprack_slots, set_tiprack_i lib, set_tiprack lib,
           set_working_plate lib, place_working_plate lib,
           set_reagent_stock lib, place_reagent_stock lib,
           set_waste_res lib, place_waste_res lib]
          (entry_locals lh))
       return_deck"

section \<open>The module namespaces\<close>

text \<open>
  A global name is looked up when the statement that reads it runs, in the namespace of the
  module at that moment. Of the values a namespace holds, the model tells apart those that
  \<^verbatim>\<open>run\<close> calls before its first primitive: a class that makes a backend, a class that
  makes a handler, a function that builds the deck; it also has integer constants and any
  other object. The namespace of each script binds \<^verbatim>\<open>__name__\<close> (of the names the
  interpreter sets, the one the scripts read), then the names of its imports, its
  constants and its functions, in the order of the source; neither script binds
  \<^verbatim>\<open>MyBackend\<close>: each imports \<^verbatim>\<open>OpentronsBackend\<close> and never uses it. \<open>builtin_names\<close> lists
  the builtins the scripts refer to; \<^verbatim>\<open>MyBackend\<close> is not a builtin of Python.
\<close>

datatype ('backend, 'lh, 'tip, 'well) global =
    Backend_class "bool \<Rightarrow> exn + 'backend"
  | Handler_class "'backend \<Rightarrow> exn + 'lh"
  | Deck_builder "'lh \<Rightarrow> exn + ('tip, 'well) deck"
  | Constant int
  | Other_object

type_synonym ('backend, 'lh, 'tip, 'well) namespace =
  "(string \<times> ('backend, 'lh, 'tip, 'well) global) list"

definition ot2plr_globals ::
  "('backend, 'lh, 'loc, 'tip, 'well) library \<Rightarrow> ('backend, 'lh, 'tip, 'well) namespace" where
  "ot2plr_globals lib =
     [(''__name__'', Other_object),
      (''LiquidHandler'', Handler_class (LiquidHandler lib)),
      (''OpentronsBackend'', Backend_class (OpentronsBackend lib)),
      (''Coordinate'', Other_object), (''TipRack'', Other_object), (''Plate'', Other_object),
      (''corning_96_wellplate_360ul_flat'', Other_object),
      (''nest_12_reservoir_15ml'', Other_object),
      (''nest_1_reservoir_195ml'', Other_object),
      (''opentrons_96_tiprack_300ul'', Other_object),
      (''MEDIUM_VOL'', Constant MEDIUM_VOL), (''PBS_VOL'', Constant PBS_VOL),
      (''LYSIS_VOL'', Constant LYSIS_VOL), (''LUC_VOL'', Constant LUC_VOL),
      (''TOTAL_COL'', Constant TOTAL_COL),
      (''_build_deck'', Deck_builder (build_deck lib)),
      (''_tip_gen'', Other_object), (''run'', Other_object)]"

definition assay_globals ::
  "('backend, 'lh, 'loc, 'tip, 'well) library \<Rightarrow> ('backend, 'lh, 'tip, 'well) namespace" where
  "assay_globals lib =
     [(''__name__'', Other_object),
      (''LiquidHandler'', Handler_class (LiquidHandler lib)),
      (''OpentronsBackend'', Backend_class (OpentronsBackend lib)),
      (''Coordinate'', Other_object), (''TipRack'', Other_object), (''Plate'', Other_object),
      (''corning_96_wellplate_360ul_flat'', Other_object),
      (''nest_12_reservoir_15ml'', Other_object),
      (''nest_1_reservoir_195ml'', Other_object),
      (''opentrons_96_tiprack_300ul'', Other_object),
      (''DPLiquidHandler'', Handler_class (DPLiquidHandler lib)),
      (''MEDIUM_VOL'', Constant MEDIUM_VOL), (''PBS_VOL'', Constant PBS_VOL),
      (''LYSIS_VOL'', Constant LYSIS_VOL), (''LUC_VOL'', Constant LUC_VOL),
      (''TOTAL_COL'', Constant TOTAL_COL),
      (''_build_deck'', Deck_builder (build_deck lib)),
      (''run'', Other_object)]"

definition builtin_names :: "string list" where
  "builtin_names = [''next'', ''RuntimeError'', ''bool'']"

definition load_global ::
  "('backend, 'lh, 'tip, 'well) namespace \<Rightarrow> string
     \<Rightarrow> exn + ('backend, 'lh, 'tip, 'well) global" where
  "load_global globals name =
     (case map_of globals name of
        Some v \<Rightarrow> Inr v
      | None \<Rightarrow> if name \<in> set builtin_names then Inr Other_object else Inl (NameError name))"

text \<open>Calling a global: an object that is not of the kind expected is not modelled further.\<close>

fun call_backend_class :: "('backend, 'lh, 'tip, 'well) global \<Rightarrow> bool \<Rightarrow> exn + 'backend" where
  "call_backend_class (Backend_class cls) simulation = cls simulation"
| "call_backend_class _ simulation = Inl TypeError"

fun call_handler_class :: "('backend, 'lh, 'tip, 'well) global \<Rightarrow> 'backend \<Rightarrow> exn + 'lh" where
  "call_handler_class (Handler_class cls) backend = cls backend"
| "call_handler_class _ backend = Inl TypeError"

fun call_deck_builder ::
  "('backend, 'lh, 'tip, 'well) global \<Rightarrow> 'lh \<Rightarrow> exn + ('tip, 'well) deck" where
  "call_deck_builder (Deck_builder builder) lh = builder lh"
| "call_deck_builder _ lh = Inl TypeError"

section \<open>The two entry points\<close>

text \<open>
  \<^verbatim>\<open>def run(simulation: bool = False)\<close> of \<^verbatim>\<open>ot2plr.py\<close>. The argument is \<open>None\<close> when the
  call leaves it out. \<open>run_in globals\<close> is the function executing in the namespace
  \<open>globals\<close>, from which it reads \<^verbatim>\<open>MyBackend\<close>, \<^verbatim>\<open>LiquidHandler\<close> and \<^verbatim>\<open>_build_deck\<close> as
  it reaches them; the other globals it reads (\<^verbatim>\<open>_tip_gen\<close>, \<^verbatim>\<open>next\<close>, \<^verbatim>\<open>Coordinate\<close> and the
  constants) are the module's own throughout. \<open>run\<close> is \<open>run_in\<close> in the namespace of the
  module as the script leaves it. The result is the outcome and the primitives issued.
\<close>

definition run_simulation :: "bool option \<Rightarrow> bool" where
  "run_simulation arg = (case arg of None \<Rightarrow> False | Some simulation \<Rightarrow> simulation)"

definition run_in ::
  "('backend, 'lh, 'tip, 'well) namespace \<Rightarrow> bool option
     \<Rightarrow> (exn + unit) \<times> ('tip, 'well) primitive list" where
  "run_in globals arg =
     (let simulation = run_simulation arg in
      case load_global globals ''MyBackend'' of Inl e \<Rightarrow> (Inl e, []) | Inr cls \<Rightarrow>
      case call_backend_class cls simulation of Inl e \<Rightarrow> (Inl e, []) | Inr backend \<Rightarrow>
      case load_global globals ''LiquidHandler'' of Inl e \<Rightarrow> (Inl e, []) | Inr cls' \<Rightarrow>
      case call_handler_class cls' backend of Inl e \<Rightarrow> (Inl e, []) | Inr lh \<Rightarrow>
      case load_global globals ''_build_deck'' of Inl e \<Rightarrow> (Inl e, []) | Inr builder \<Rightarrow>
      case call_deck_builder builder lh of Inl e \<Rightarrow> (Inl e, []) | Inr deck \<Rightarrow>
      run_from_deck deck)"

definition run ::
  "('backend, 'lh, 'loc, 'tip, 'well) library \<Rightarrow> bool option
     \<Rightarrow> (exn + unit) \<times> ('tip, 'well) primitive list" where
  "run lib arg = run_in (ot2plr_globals lib) arg"

text \<open>
  \<^verbatim>\<open>async def run(simulation: bool = True)\<close> of the assay script. Calling a coroutine
  function runs none of its body: the call binds the arguments and returns a coroutine
  object; the body runs when the coroutine is awaited. The script's own
  \<^verbatim>\<open>run(simulation=True)\<close> is a plain call, never awaited. \<open>run_async\<close> is the call: it
  raises nothing, issues nothing and returns the coroutine. A coroutine is represented
  by what awaiting it to its end yields, \<open>await_coroutine\<close>; \<open>run_async_body\<close> is the body,
  where each \<^verbatim>\<open>await\<close> of a helper is a call that returns before the next statement
  starts.
\<close>

definition run_async_simulation :: "bool option \<Rightarrow> bool" where
  "run_async_simulation arg = (case arg of None \<Rightarrow> True | Some simulation \<Rightarrow> simulation)"

datatype ('tip, 'well) coroutine =
  Coroutine "(exn + unit) \<times> ('tip, 'well) primitive list"

fun await_coroutine ::
  "('tip, 'well) coroutine \<Rightarrow> (exn + unit) \<times> ('tip, 'well) primitive list" where
  "await_coroutine (Coroutine outcome) = outcome"

definition no_kwargs :: "real list \<Rightarrow> 'tip list list \<Rightarrow> ('tip, 'well) transfer_kwargs" where
  "no_kwargs vols racks =
     \<lparr>kw_vols = vols, kw_sources = None, kw_targets = None, kw_reagent_sources = None,
      kw_tip_racks = racks, kw_offsets = None, kw_liquid_height = None, kw_flow_rates = None,
      kw_delays = None, kw_blow_out_air_volume = None, kw_mix_time = None, kw_mix_vols = None,
      kw_mix_liquid_height = None\<rparr>"

definition run_async_from_deck ::
  "('backend, 'lh, 'loc, 'tip, 'well) library \<Rightarrow> ('tip, 'well) deck
     \<Rightarrow> (exn + unit) \<times> ('tip, 'well) primitive list" where
  "run_async_from_deck lib deck =
     (case getitem (wells (reagent_res deck)) 0 of Inl e \<Rightarrow> (Inl e, []) | Inr pbs \<Rightarrow>
      case getitem (wells (reagent_res deck)) 1 of Inl e \<Rightarrow> (Inl e, []) | Inr lysis \<Rightarrow>
      case getitem (wells (reagent_res deck)) 2 of Inl e \<Rightarrow> (Inl e, []) | Inr luciferase \<Rightarrow>
      case sample_columns (working_plate deck) TOTAL_COL of Inl e \<Rightarrow> (Inl e, []) | Inr cells_all \<Rightarrow>
      run_all
        [\<lambda>tr. (Inr (), tr @ [Setup]),
         remove_liquid lib
           ((no_kwargs (replicate 12 (real_of_int MEDIUM_VOL)) (tip_racks deck))
            \<lparr>kw_sources := Some cells_all,
             kw_offsets := Some [Coordinate (Some (- 2.5)) (Some 0) (Some (- 0.2)),
                                 Coordinate (Some 0) (Some 0) (Some (- 5))],
             kw_liquid_height := Some [Some 0.2, None],
             kw_flow_rates := Some [0.2, 3]\<rparr>),
         add_liquid lib
           ((no_kwargs (replicate 12 (real_of_int PBS_VOL)) (tip_racks deck))
            \<lparr>kw_reagent_sources := Some [pbs],
             kw_targets := Some cells_all,
             kw_delays := Some [1],
             kw_flow_rates := Some [3, 0.3],
             kw_offsets := Some [Coordinate (Some 0) (Some 0) (Some 0.5),
                                 Coordinate (Some 0) (Some 0) (Some (- 2))],
             kw_blow_out_air_volume := Some [Some 20, None]\<rparr>),
         remove_liquid lib
           ((no_kwargs (replicate 12 (real_of_int PBS_VOL * 1.5)) (tip_racks deck))
            \<lparr>kw_liquid_height := Some [Some 0.2, None],
             kw_offsets := Some [Coordinate (Some (- 2.5)) (Some 0) (Some 0),
                                 Coordinate (Some 0) (Some 0) (Some (- 5))],
             kw_sources := Some cells_all\<rparr>),
         add_liquid lib
           ((no_kwargs (replicate 12 (real_of_int LYSIS_VOL)) (tip_racks deck))
            \<lparr>kw_reagent_sources := Some [lysis],
             kw_sources := Some cells_all,
             kw_delays := Some [2, 2]\<rparr>),
         add_liquid lib
           ((no_kwargs (replicate 12 (real_of_int LUC_VOL)) (tip_racks deck))
            \<lparr>kw_reagent_sources := Some [luciferase],
             kw_targets := Some cells_all,
             kw_delays := Some [1],
             kw_mix_time := Some [3],
             kw_mix_vols := Some [75],
             kw_mix_liquid_height := Some [0.5]\<rparr>)]
        [])"

definition run_async_body ::
  "('backend, 'lh, 'loc, 'tip, 'well) library \<Rightarrow> bool
     \<Rightarrow> (exn + unit) \<times> ('tip, 'well) primitive list" where
  "run_async_body lib simulation =
     (case load_global (assay_globals lib) ''MyBackend'' of Inl e \<Rightarrow> (Inl e, []) | Inr cls \<Rightarrow>
      case call_backend_class cls simulation of Inl e \<Rightarrow> (Inl e, []) | Inr backend \<Rightarrow>
      case load_global (assay_globals lib) ''DPLiquidHandler'' of Inl e \<Rightarrow> (Inl e, []) | Inr cls' \<Rightarrow>
      case call_handler_class cls' backend of Inl e \<Rightarrow> (Inl e, []) | Inr lh \<Rightarrow>
      case load_global (assay_globals lib) ''_build_deck'' of Inl e \<Rightarrow> (Inl e, []) | Inr builder \<Rightarrow>
      case call_deck_builder builder lh of Inl e \<Rightarrow> (Inl e, []) | Inr deck \<Rightarrow>
      run_async_from_deck lib deck)"

definition run_async ::
  "('backend, 'lh, 'loc, 'tip, 'well) library \<Rightarrow> bool option
     \<Rightarrow> (exn + ('tip, 'well) coroutine) \<times> ('tip, 'well) primitive list" where
  "run_async lib arg =
     (let simulation = run_async_simulation arg in
      (Inr (Coroutine (run_async_body lib simulation)), []))"

section \<open>The primitives of one pass of each loop\<close>

text \<open>
  Pure lists, for stating what a step issues: the primitives of one pass of the loop of
  each step, for one cell (and, where the pass takes a tip, that tip).
\<close>

definition medium_block :: "'well \<Rightarrow> 'well \<Rightarrow> 'tip \<Rightarrow> ('tip, 'well) primitive list" where
  "medium_block waste cell tip =
     [Pick_up_tips tip,
      Aspirate cell (real_of_int MEDIUM_VOL * 1.2) 0.2
        (Some (Coordinate (Some (- 2.5)) (Some 0) (Some 0.2))),
      Dispense waste (real_of_int MEDIUM_VOL * 1.2) 3 (Some (Coordinate None None (Some (- 5)))),
      Drop_tips]"

definition wash_add_block :: "'well \<Rightarrow> 'well \<Rightarrow> ('tip, 'well) primitive list" where
  "wash_add_block pbs cell =
     [Aspirate pbs (real_of_int PBS_VOL) 3 None,
      Air_gap 20,
      Dispense cell (real_of_int (PBS_VOL + 20)) 0.3 (Some (Coordinate None None (Some (- 2))))]"

definition wash_remove_block :: "'well \<Rightarrow> 'well \<Rightarrow> 'tip \<Rightarrow> ('tip, 'well) primitive list" where
  "wash_remove_block waste cell tip =
     [Pick_up_tips tip,
      Aspirate cell (real_of_int PBS_VOL * 1.5) 0.2
        (Some (Coordinate (Some (- 2.5)) (Some 0) (Some 0.2))),
      Dispense waste (real_of_int PBS_VOL * 1.5) 3 (Some (Coordinate None None (Some (- 5)))),
      Drop_tips]"

definition lysis_block :: "'well \<Rightarrow> 'well \<Rightarrow> ('tip, 'well) primitive list" where
  "lysis_block lysis cell =
     [Aspirate lysis (real_of_int LYSIS_VOL) 0.5 None,
      Delay_seconds 2,
      Dispense cell (real_of_int LYSIS_VOL) 0.3 (Some (Coordinate None None (Some 5))),
      Delay_seconds 2]"

definition luciferase_block :: "'well \<Rightarrow> 'well \<Rightarrow> 'tip \<Rightarrow> ('tip, 'well) primitive list" where
  "luciferase_block luciferase cell tip =
     [Pick_up_tips tip,
      Aspirate luciferase (real_of_int LUC_VOL) 0.75 None,
      Delay_seconds 2,
      Dispense cell (real_of_int LUC_VOL) 0.75 (Some (Coordinate None None (Some (- 0.5)))),
      Mix cell 75 3 3 (Some (Coordinate None None (Some 0.5))),
      Drop_tips]"

text \<open>
  The trace of \<open>protocol_steps\<close> as a function of the sample columns and of the tips \<open>ts\<close>
  the generator has still to yield. With \<open>n\<close> columns the run takes \<open>3 * n + 2\<close> tips; with
  fewer, it stops where the next tip is missing.
\<close>

definition expected_trace ::
  "'well \<Rightarrow> 'well \<Rightarrow> 'well \<Rightarrow> 'well \<Rightarrow> 'well list \<Rightarrow> 'tip list \<Rightarrow> ('tip, 'well) primitive list" where
  "expected_trace pbs lysis luciferase waste cells ts =
     (let n = length cells in
      Setup # concat (map2 (medium_block waste) cells ts)
      @ (if length ts \<le> n then []
         else Pick_up_tips (ts ! n) # concat (map (wash_add_block pbs) cells) @ [Drop_tips]
           @ concat (map2 (wash_remove_block waste) cells (drop (n + 1) ts))
           @ (if length ts \<le> 2 * n + 1 then []
              else Pick_up_tips (ts ! (2 * n + 1)) # concat (map (lysis_block lysis) cells)
                @ [Drop_tips, Delay_minutes 3]
                @ concat (map2 (luciferase_block luciferase) cells (drop (2 * n + 2) ts))
                @ (if length ts < 3 * n + 2 then [] else [Finish]))))"

text \<open>
  \<open>live s ts tr\<close>: in state \<open>s\<close> the generator has not ended and has still to yield \<open>ts\<close>,
  and the trace is \<open>tr\<close>. \<open>dead s tr\<close>: the generator has ended, the trace is \<open>tr\<close>.
\<close>

definition live :: "('tip, 'well) state \<Rightarrow> 'tip list \<Rightarrow> ('tip, 'well) primitive list \<Rightarrow> bool" where
  "live s ts tr \<longleftrightarrow> tips s \<noteq> Finished \<and> remaining (tips s) = ts \<and> trace s = tr"

definition dead :: "('tip, 'well) state \<Rightarrow> ('tip, 'well) primitive list \<Rightarrow> bool" where
  "dead s tr \<longleftrightarrow> tips s = Finished \<and> trace s = tr"

section \<open>Counting tip acquisitions in a trace\<close>

fun is_pick_up :: "('tip, 'well) primitive \<Rightarrow> bool" where
  "is_pick_up (Pick_up_tips _) = True"
| "is_pick_up _ = False"

fun is_drop :: "('tip, 'well) primitive \<Rightarrow> bool" where
  "is_drop Drop_tips = True"
| "is_drop _ = False"

definition pick_ups :: "('tip, 'well) primitive list \<Rightarrow> nat" where
  "pick_ups tr = length (filter is_pick_up tr)"

definition drops :: "('tip, 'well) primitive list \<Rightarrow> nat" where
  "drops tr = length (filter is_drop tr)"

section \<open>A concrete deck\<close>

text \<open>
  A deck for evaluating the run: forty tips in four racks, a plate of two rows of twelve
  wells, a reagent reservoir and a waste reservoir.
\<close>

definition example_deck :: "(nat, string) deck" where
  "example_deck =
     \<lparr>tip_racks = [[101, 102, 103, 104, 105, 106, 107, 108, 109, 110],
                   [201, 202, 203, 204, 205, 206, 207, 208, 209, 210],
                   [301, 302, 303, 304, 305, 306, 307, 308, 309, 310],
                   [401, 402, 403, 404, 405, 406, 407, 408, 409, 410]],
      working_plate =
        \<lparr>wells = [], rows = [[''A1'', ''A2'', ''A3'', ''A4'', ''A5'', ''A6'', ''A7'', ''A8'',
                               ''A9'', ''A10'', ''A11'', ''A12''],
                              [''B1'', ''B2'', ''B3'', ''B4'', ''B5'', ''B6'', ''B7'', ''B8'',
                               ''B9'', ''B10'', ''B11'', ''B12'']]\<rparr>,
      reagent_res = \<lparr>wells = [''PBS'', ''lysis'', ''luciferase'', ''spare''], rows = []\<rparr>,
      waste_res = \<lparr>wells = [''waste''], rows = []\<rparr>\<rparr>"

text \<open>
  A library for evaluating the entry points: every constructor and every call succeeds.
  \<open>checked_backend\<close> is a backend class that can only be made for simulation.
  \<open>example_globals cls\<close> is the namespace of \<^verbatim>\<open>ot2plr.py\<close> over this library in which a
  caller has bound \<^verbatim>\<open>MyBackend\<close> to the class \<open>cls\<close> and \<^verbatim>\<open>_build_deck\<close> to a function
  that returns the concrete deck.
\<close>

definition example_library :: "(unit, unit, unit, nat, string) library" where
  "example_library =
     \<lparr>OpentronsBackend = (\<lambda>simulation. Inr ()),
      LiquidHandler = (\<lambda>backend. Inr ()),
      DPLiquidHandler = (\<lambda>backend. Inr ()),
      opentrons_96_tiprack_300ul = (\<lambda>name. Inr [1, 2, 3]),
      corning_96_wellplate_360ul_flat = (\<lambda>name. Inr (working_plate example_deck)),
      nest_12_reservoir_15ml = (\<lambda>name. Inr (reagent_res example_deck)),
      nest_1_reservoir_195ml = (\<lambda>name. Inr (waste_res example_deck)),
      assign_child_resource =
        (\<lambda>resource placement lh. Inr (case resource of Rack rack \<Rightarrow> rack | Labware _ \<Rightarrow> [], lh)),
      get_slot = (\<lambda>slot lh. Inr ()),
      remove_liquid = (\<lambda>kwargs tr. (Inr (), tr)),
      add_liquid = (\<lambda>kwargs tr. (Inr (), tr))\<rparr>"



section \<open>Properties of the tip generator\<close>

lemma py_next_empty:
  "remaining g = [] \<Longrightarrow> g \<noteq> Finished \<Longrightarrow> py_next g = (Inl (RuntimeError ''Out of tips!''), Finished)"
  by (induction g rule: py_next.induct) auto

lemma py_next_Cons:
  "remaining g = t # ts \<Longrightarrow>
     \<exists>g'. py_next g = (Inr t, g') \<and> remaining g' = ts \<and> g' \<noteq> Finished"
  by (induction g rule: py_next.induct) auto

lemma next_n_remaining:
  "n \<le> length (remaining g) \<Longrightarrow> g \<noteq> Finished \<Longrightarrow>
     \<exists>g'. next_n n g = (map Inr (take n (remaining g)), g')
          \<and> remaining g' = drop n (remaining g) \<and> g' \<noteq> Finished"
proof (induction n arbitrary: g)
  case 0
  then show ?case by simp
next
  case (Suc n)
  then obtain t ts where rem: "remaining g = t # ts"
    by (cases "remaining g") auto
  from py_next_Cons [OF rem] obtain g1 where
    g1: "py_next g = (Inr t, g1)" "remaining g1 = ts" "g1 \<noteq> Finished"
    by blast
  from Suc.prems rem g1 have "n \<le> length (remaining g1)" by simp
  from Suc.IH [OF this g1(3)] obtain g2 where
    g2: "next_n n g1 = (map Inr (take n (remaining g1)), g2)"
        "remaining g2 = drop n (remaining g1)" "g2 \<noteq> Finished"
    by blast
  show ?case
    using rem g1 g2 by simp
qed

text \<open>
  Claim C2, as stated, fails: over an inventory that lists a rack twice, the four tips
  returned are not distinct.
\<close>

theorem tip_gen_repeats_counterexample:
  "fst (next_n 4 (tip_gen [[1, 2], [1, 2 :: nat]])) = [Inr 1, Inr 2, Inr 1, Inr 2]"
  by (simp add: tip_gen_def numeral_eq_Suc)

text \<open>
  Claim C2, amended. For every tip inventory \<open>racks\<close> with \<open>N\<close> tip positions in all, the
  first \<open>N\<close> calls of \<^verbatim>\<open>next\<close> on \<open>tip_gen racks\<close> all succeed and return the tips rack by
  rack and, within a rack, in the rack's own order; the tips returned are pairwise
  distinct exactly when no tip occurs twice in the inventory; the call after them raises
  \<^verbatim>\<open>RuntimeError("Out of tips!")\<close>.
\<close>

theorem tip_gen_exhaustion:
  "\<exists>g. next_n (length (concat racks)) (tip_gen racks) = (map Inr (concat racks), g)
       \<and> fst (py_next g) = Inl (RuntimeError ''Out of tips!'')
       \<and> (distinct (fst (next_n (length (concat racks)) (tip_gen racks)))
            \<longleftrightarrow> distinct (concat racks))"
proof -
  have ne: "tip_gen racks \<noteq> Finished"
    by (simp add: tip_gen_def)
  have rem: "remaining (tip_gen racks) = concat racks"
    by (simp add: tip_gen_def)
  from next_n_remaining [of "length (concat racks)" "tip_gen racks"] ne rem
  obtain g where g:
    "next_n (length (concat racks)) (tip_gen racks) = (map Inr (concat racks), g)"
    "remaining g = []" "g \<noteq> Finished"
    by auto
  from py_next_empty [OF g(2) g(3)] have "fst (py_next g) = Inl (RuntimeError ''Out of tips!'')"
    by simp
  moreover from g(1)
  have "distinct (fst (next_n (length (concat racks)) (tip_gen racks))) \<longleftrightarrow> distinct (concat racks)"
    by (simp add: distinct_map)
  ultimately show ?thesis using g(1) by blast
qed

section \<open>What the loops issue\<close>

lemma run_all_issue:
  "run_all (map issue ps) s = (Inr (), s\<lparr>trace := trace s @ ps\<rparr>)"
  by (induction ps arbitrary: s) (simp_all add: issue_def)

lemma run_all_issue_live:
  "live s ts tr \<Longrightarrow> \<exists>s'. run_all (map issue ps) s = (Inr (), s') \<and> live s' ts (tr @ ps)"
  by (simp add: run_all_issue live_def)

lemma next_tips_Cons:
  "live s (t # ts) tr \<Longrightarrow> \<exists>s'. next_tips s = (Inr t, s') \<and> live s' ts tr"
proof -
  assume l: "live s (t # ts) tr"
  then have "remaining (tips s) = t # ts" by (simp add: live_def)
  from py_next_Cons [OF this] obtain g where
    "py_next (tips s) = (Inr t, g)" "remaining g = ts" "g \<noteq> Finished" by blast
  with l show ?thesis by (simp add: next_tips_def live_def)
qed

lemma next_tips_Nil:
  "live s [] tr \<Longrightarrow> \<exists>s'. next_tips s = (Inl (RuntimeError ''Out of tips!''), s') \<and> dead s' tr"
proof -
  assume l: "live s [] tr"
  then have "remaining (tips s) = []" "tips s \<noteq> Finished" by (simp_all add: live_def)
  from py_next_empty [OF this] l show ?thesis
    by (simp add: next_tips_def live_def dead_def)
qed

lemma tip_block_Cons:
  assumes "live s (t # ts) tr"
  shows "\<exists>s'. and_then next_tips (\<lambda>tip. run_all (map issue (blk tip))) s = (Inr (), s')
              \<and> live s' ts (tr @ blk t)"
proof -
  from next_tips_Cons [OF assms] obtain s1 where
    s1: "next_tips s = (Inr t, s1)" "live s1 ts tr" by blast
  from run_all_issue_live [OF s1(2), of "blk t"] s1(1) show ?thesis
    by (simp add: and_then_def)
qed

lemma tip_block_Nil:
  assumes "live s [] tr"
  shows "\<exists>s'. and_then next_tips f s = (Inl (RuntimeError ''Out of tips!''), s') \<and> dead s' tr"
  using next_tips_Nil [OF assms] by (auto simp: and_then_def)

lemma per_tip_loop:
  assumes body: "\<And>cell. body cell = and_then next_tips (\<lambda>tip. run_all (map issue (blk cell tip)))"
    and "live s ts tr"
  shows "\<exists>s'. for_each body cells s =
                 (if length cells \<le> length ts then Inr () else Inl (RuntimeError ''Out of tips!''), s')
              \<and> trace s' = tr @ concat (map2 blk cells ts)
              \<and> (if length cells \<le> length ts then live s' (drop (length cells) ts) (trace s')
                  else dead s' (trace s'))"
  using assms(2)
proof (induction cells arbitrary: s ts tr)
  case Nil
  then show ?case by (simp add: live_def)
next
  case (Cons c cells)
  show ?case
  proof (cases ts)
    case Nil
    with Cons.prems tip_block_Nil [of s tr "\<lambda>tip. run_all (map issue (blk c tip))"]
    show ?thesis by (auto simp: body dead_def)
  next
    case (Cons t ts')
    with Cons.prems tip_block_Cons [of s t ts' tr "blk c"] obtain s1 where
      s1: "body c s = (Inr (), s1)" "live s1 ts' (tr @ blk c t)"
      by (auto simp: body)
    from Cons.IH [OF s1(2)] s1(1) Cons show ?thesis
      by auto
  qed
qed

lemma for_each_issue:
  "for_each (\<lambda>cell. run_all (map issue (blk cell))) cells s
     = (Inr (), s\<lparr>trace := trace s @ concat (map blk cells)\<rparr>)"
  by (induction cells arbitrary: s) (simp_all add: run_all_issue)

lemma shared_tip_step:
  assumes "live s ts tr"
  shows "\<exists>s'. run_all ([and_then next_tips (\<lambda>tip. issue (Pick_up_tips tip)),
                        for_each (\<lambda>cell. run_all (map issue (blk cell))) cells]
                        @ map issue after) s =
                 (if ts = [] then Inl (RuntimeError ''Out of tips!'') else Inr (), s')
              \<and> trace s' = tr @ (if ts = [] then []
                                  else Pick_up_tips (hd ts) # concat (map blk cells) @ after)
              \<and> (if ts = [] then dead s' (trace s') else live s' (tl ts) (trace s'))"
proof (cases ts)
  case Nil
  with assms tip_block_Nil [of s tr "\<lambda>tip. issue (Pick_up_tips tip)"] show ?thesis
    by (auto simp: dead_def)
next
  case (Cons t ts')
  with assms next_tips_Cons [of s t ts' tr] obtain s1 where
    s1: "next_tips s = (Inr t, s1)" "live s1 ts' tr" by blast
  then show ?thesis using Cons
    by (simp add: and_then_def issue_def for_each_issue run_all_issue live_def)
qed

lemma remove_spent_medium_run:
  assumes "live s ts tr"
  shows "\<exists>s'. remove_spent_medium waste cells s =
                 (if length cells \<le> length ts then Inr () else Inl (RuntimeError ''Out of tips!''), s')
              \<and> trace s' = tr @ concat (map2 (medium_block waste) cells ts)
              \<and> (if length cells \<le> length ts then live s' (drop (length cells) ts) (trace s')
                  else dead s' (trace s'))"
  unfolding remove_spent_medium_def
  by (rule per_tip_loop [OF _ assms]) (simp add: remove_spent_medium_cell_def medium_block_def)

lemma pbs_wash_remove_run:
  assumes "live s ts tr"
  shows "\<exists>s'. pbs_wash_remove waste cells s =
                 (if length cells \<le> length ts then Inr () else Inl (RuntimeError ''Out of tips!''), s')
              \<and> trace s' = tr @ concat (map2 (wash_remove_block waste) cells ts)
              \<and> (if length cells \<le> length ts then live s' (drop (length cells) ts) (trace s')
                  else dead s' (trace s'))"
  unfolding pbs_wash_remove_def
  by (rule per_tip_loop [OF _ assms]) (simp add: pbs_wash_remove_cell_def wash_remove_block_def)

lemma add_luciferase_reagent_run:
  assumes "live s ts tr"
  shows "\<exists>s'. add_luciferase_reagent luciferase cells s =
                 (if length cells \<le> length ts then Inr () else Inl (RuntimeError ''Out of tips!''), s')
              \<and> trace s' = tr @ concat (map2 (luciferase_block luciferase) cells ts)
              \<and> (if length cells \<le> length ts then live s' (drop (length cells) ts) (trace s')
                  else dead s' (trace s'))"
  unfolding add_luciferase_reagent_def
  by (rule per_tip_loop [OF _ assms])
     (simp add: add_luciferase_reagent_cell_def luciferase_block_def)

lemma pbs_wash_add_run:
  assumes "live s ts tr"
  shows "\<exists>s'. pbs_wash_add pbs cells s =
                 (if ts = [] then Inl (RuntimeError ''Out of tips!'') else Inr (), s')
              \<and> trace s' = tr @ (if ts = [] then []
                    else Pick_up_tips (hd ts) # concat (map (wash_add_block pbs) cells) @ [Drop_tips])
              \<and> (if ts = [] then dead s' (trace s') else live s' (tl ts) (trace s'))"
proof -
  have eq: "pbs_wash_add pbs cells =
      run_all ([and_then next_tips (\<lambda>tip. issue (Pick_up_tips tip)),
                for_each (\<lambda>cell. run_all (map issue (wash_add_block pbs cell))) cells]
               @ map issue [Drop_tips])"
    by (rule ext) (simp add: pbs_wash_add_def pbs_wash_add_cell_def [abs_def] wash_add_block_def)
  show ?thesis unfolding eq
    by (rule shared_tip_step [OF assms])
qed

lemma add_lysis_buffer_run:
  assumes "live s ts tr"
  shows "\<exists>s'. add_lysis_buffer lysis cells s =
                 (if ts = [] then Inl (RuntimeError ''Out of tips!'') else Inr (), s')
              \<and> trace s' = tr @ (if ts = [] then []
                    else Pick_up_tips (hd ts) # concat (map (lysis_block lysis) cells)
                         @ [Drop_tips, Delay_minutes 3])
              \<and> (if ts = [] then dead s' (trace s') else live s' (tl ts) (trace s'))"
proof -
  have eq: "add_lysis_buffer lysis cells =
      run_all ([and_then next_tips (\<lambda>tip. issue (Pick_up_tips tip)),
                for_each (\<lambda>cell. run_all (map issue (lysis_block lysis cell))) cells]
               @ map issue [Drop_tips, Delay_minutes 3])"
    by (rule ext) (simp add: add_lysis_buffer_def add_lysis_buffer_cell_def [abs_def] lysis_block_def)
  show ?thesis unfolding eq
    by (rule shared_tip_step [OF assms])
qed

lemma protocol_steps_run:
  assumes "live s ts tr"
  shows "\<exists>s'. protocol_steps pbs lysis luciferase waste cells s =
                 (if length ts < 3 * length cells + 2 then Inl (RuntimeError ''Out of tips!'')
                  else Inr (), s')
              \<and> trace s' = tr @ expected_trace pbs lysis luciferase waste cells ts"
proof -
  let ?n = "length cells"
  from assms have l0: "live (s\<lparr>trace := trace s @ [Setup]\<rparr>) ts (tr @ [Setup])"
    by (simp add: live_def)
  from remove_spent_medium_run [OF l0, of waste cells] obtain s1 where s1:
    "remove_spent_medium waste cells (s\<lparr>trace := trace s @ [Setup]\<rparr>) =
       (if ?n \<le> length ts then Inr () else Inl (RuntimeError ''Out of tips!''), s1)"
    "trace s1 = tr @ [Setup] @ concat (map2 (medium_block waste) cells ts)"
    "if ?n \<le> length ts then live s1 (drop ?n ts) (trace s1) else dead s1 (trace s1)"
    by auto
  show ?thesis
  proof (cases "?n \<le> length ts")
    case False
    with s1 show ?thesis
      by (simp add: protocol_steps_def issue_def expected_trace_def Let_def)
  next
    case n1: True
    with s1 have l1: "live s1 (drop ?n ts) (trace s1)" by simp
    from pbs_wash_add_run [OF l1, of pbs cells] obtain s2 where s2:
      "pbs_wash_add pbs cells s1 =
         (if drop ?n ts = [] then Inl (RuntimeError ''Out of tips!'') else Inr (), s2)"
      "trace s2 = trace s1 @ (if drop ?n ts = [] then []
          else Pick_up_tips (hd (drop ?n ts)) # concat (map (wash_add_block pbs) cells) @ [Drop_tips])"
      "if drop ?n ts = [] then dead s2 (trace s2) else live s2 (tl (drop ?n ts)) (trace s2)"
      by auto
    show ?thesis
    proof (cases "length ts \<le> ?n")
      case True
      with n1 s1 s2 show ?thesis
        by (simp add: protocol_steps_def issue_def expected_trace_def Let_def)
    next
      case n2: False
      then have hd2: "hd (drop ?n ts) = ts ! ?n"
        by (simp add: hd_drop_conv_nth)
      have tl2: "tl (drop ?n ts) = drop (?n + 1) ts"
        by (simp add: drop_Suc tl_drop)
      from n2 s2 tl2 have l2: "live s2 (drop (?n + 1) ts) (trace s2)" by simp
      from pbs_wash_remove_run [OF l2, of waste cells] obtain s3 where s3:
        "pbs_wash_remove waste cells s2 =
           (if ?n \<le> length (drop (?n + 1) ts) then Inr () else Inl (RuntimeError ''Out of tips!''), s3)"
        "trace s3 = trace s2 @ concat (map2 (wash_remove_block waste) cells (drop (?n + 1) ts))"
        "if ?n \<le> length (drop (?n + 1) ts) then live s3 (drop ?n (drop (?n + 1) ts)) (trace s3)
         else dead s3 (trace s3)"
        by auto
      show ?thesis
      proof (cases "?n \<le> length (drop (?n + 1) ts)")
        case False
        with n1 n2 s1 s2 s3 hd2 show ?thesis
          by (simp add: protocol_steps_def issue_def expected_trace_def Let_def)
      next
        case n3: True
        with s3 have l3: "live s3 (drop (2 * ?n + 1) ts) (trace s3)"
          by (simp add: add.commute mult_2)
        from add_lysis_buffer_run [OF l3, of lysis cells] obtain s4 where s4:
          "add_lysis_buffer lysis cells s3 =
             (if drop (2 * ?n + 1) ts = [] then Inl (RuntimeError ''Out of tips!'') else Inr (), s4)"
          "trace s4 = trace s3 @ (if drop (2 * ?n + 1) ts = [] then []
              else Pick_up_tips (hd (drop (2 * ?n + 1) ts)) # concat (map (lysis_block lysis) cells)
                   @ [Drop_tips, Delay_minutes 3])"
          "if drop (2 * ?n + 1) ts = [] then dead s4 (trace s4)
           else live s4 (tl (drop (2 * ?n + 1) ts)) (trace s4)"
          by auto
        show ?thesis
        proof (cases "length ts \<le> 2 * ?n + 1")
          case True
          with n1 n2 n3 s1 s2 s3 s4 hd2 show ?thesis
            by (simp add: protocol_steps_def issue_def expected_trace_def Let_def)
        next
          case n4: False
          then have hd4: "hd (drop (2 * ?n + 1) ts) = ts ! (2 * ?n + 1)"
            by (simp add: hd_drop_conv_nth)
          have tl4: "tl (drop (2 * ?n + 1) ts) = drop (2 * ?n + 2) ts"
            by (simp add: drop_Suc tl_drop)
          from n4 s4 tl4 have l4: "live s4 (drop (2 * ?n + 2) ts) (trace s4)" by simp
          from n4 have a5: "(?n \<le> length (drop (2 * ?n + 2) ts)) = (\<not> length ts < 3 * ?n + 2)"
            by auto
          from add_luciferase_reagent_run [OF l4, of luciferase cells] obtain s5 where s5:
            "add_luciferase_reagent luciferase cells s4 =
               (if \<not> length ts < 3 * ?n + 2 then Inr ()
                else Inl (RuntimeError ''Out of tips!''), s5)"
            "trace s5 = trace s4
               @ concat (map2 (luciferase_block luciferase) cells (drop (2 * ?n + 2) ts))"
            unfolding a5 by auto
          from n1 n2 n3 n4 s1 s2 s3 s4 s5 hd2 hd4 show ?thesis
            by (simp add: protocol_steps_def issue_def expected_trace_def Let_def)
        qed
      qed
    qed
  qed
qed

section \<open>The steps, one by one\<close>

lemma live_remaining:
  "tips s \<noteq> Finished \<Longrightarrow> live s (remaining (tips s)) (trace s)"
  by (simp add: live_def)

lemma per_tip_loop_enough:
  assumes body: "\<And>cell. body cell = and_then next_tips (\<lambda>tip. run_all (map issue (blk cell tip)))"
    and len: "length cells \<le> length (remaining (tips s))"
  shows "\<exists>s'. for_each body cells s = (Inr (), s')
              \<and> trace s' = trace s @ concat (map2 blk cells (remaining (tips s)))"
proof (cases "tips s = Finished")
  case True
  with len show ?thesis by simp
next
  case False
  from per_tip_loop [of body blk, OF body live_remaining [OF False], of cells] len
  show ?thesis by auto
qed

text \<open>
  Claim C6. Step 1 (remove spent medium), run in a state whose generator can still yield a
  tip for every target column, succeeds and issues, for each column in order, exactly:
  pick up the next tip, one aspirate from that column of volume \<open>MEDIUM_VOL * 1.2\<close>, one
  dispense of the same volume to the waste well right after it, drop the tip. There is no
  mix and no air gap.
\<close>

theorem remove_spent_medium_primitives:
  assumes "length cells \<le> length (remaining (tips s))"
  shows "\<exists>s'. remove_spent_medium waste cells s = (Inr (), s')
     \<and> trace s' = trace s @ concat (map2 (\<lambda>cell tip.
          [Pick_up_tips tip,
           Aspirate cell (real_of_int MEDIUM_VOL * 1.2) 0.2
             (Some (Coordinate (Some (- 2.5)) (Some 0) (Some 0.2))),
           Dispense waste (real_of_int MEDIUM_VOL * 1.2) 3
             (Some (Coordinate None None (Some (- 5)))),
           Drop_tips]) cells (remaining (tips s)))"
  unfolding remove_spent_medium_def
  by (rule per_tip_loop_enough [OF _ assms]) (simp add: remove_spent_medium_cell_def)

text \<open>The same on two columns and three tips, where \<open>MEDIUM_VOL * 1.2\<close> is 120.\<close>

theorem remove_spent_medium_primitives_witness:
  "length [''A1'', ''A2''] \<le> length (remaining (tips \<lparr>tips = tip_gen [[1, 2, 3 :: nat]], trace = [Setup]\<rparr>))
   \<and> (\<exists>s'. remove_spent_medium ''waste'' [''A1'', ''A2'']
               \<lparr>tips = tip_gen [[1, 2, 3 :: nat]], trace = [Setup]\<rparr> = (Inr (), s')
          \<and> trace s' =
             [Setup,
              Pick_up_tips 1,
              Aspirate ''A1'' 120 0.2 (Some (Coordinate (Some (- 2.5)) (Some 0) (Some 0.2))),
              Dispense ''waste'' 120 3 (Some (Coordinate None None (Some (- 5)))),
              Drop_tips,
              Pick_up_tips 2,
              Aspirate ''A2'' 120 0.2 (Some (Coordinate (Some (- 2.5)) (Some 0) (Some 0.2))),
              Dispense ''waste'' 120 3 (Some (Coordinate None None (Some (- 5)))),
              Drop_tips])"
  using remove_spent_medium_primitives
    [of "[''A1'', ''A2'']" "\<lparr>tips = tip_gen [[1, 2, 3 :: nat]], trace = [Setup]\<rparr>" "''waste''"]
  by (simp add: tip_gen_def MEDIUM_VOL_def)

text \<open>
  Claim C7. Step 2 (PBS wash, add), run in a state whose generator can still yield a tip,
  succeeds and issues, for each target column in order: an aspirate of \<open>PBS_VOL\<close> from the
  PBS well, then an air gap of 20, then a dispense to that column of \<open>PBS_VOL + 20\<close>; the
  whole between one pick-up and one drop.
\<close>

theorem pbs_wash_add_primitives:
  assumes "remaining (tips s) = tip # ts"
  shows "\<exists>s'. pbs_wash_add pbs cells s = (Inr (), s')
     \<and> trace s' = trace s @ Pick_up_tips tip # concat (map (\<lambda>cell.
          [Aspirate pbs (real_of_int PBS_VOL) 3 None,
           Air_gap 20,
           Dispense cell (real_of_int PBS_VOL + 20) 0.3
             (Some (Coordinate None None (Some (- 2))))]) cells) @ [Drop_tips]"
proof -
  from assms have "live s (tip # ts) (trace s)"
    by (auto simp: live_def)
  from pbs_wash_add_run [OF this, of pbs cells] show ?thesis
    by (auto simp: wash_add_block_def [abs_def])
qed

text \<open>The same on two columns, where \<open>PBS_VOL\<close> is 50 and the dispense is of 70.\<close>

theorem pbs_wash_add_primitives_witness:
  "remaining (tips \<lparr>tips = tip_gen [[7 :: nat]], trace = []\<rparr>) = 7 # []
   \<and> (\<exists>s'. pbs_wash_add ''pbs'' [''A1'', ''A2''] \<lparr>tips = tip_gen [[7 :: nat]], trace = []\<rparr>
              = (Inr (), s')
          \<and> trace s' =
             [Pick_up_tips 7,
              Aspirate ''pbs'' 50 3 None, Air_gap 20,
              Dispense ''A1'' 70 0.3 (Some (Coordinate None None (Some (- 2)))),
              Aspirate ''pbs'' 50 3 None, Air_gap 20,
              Dispense ''A2'' 70 0.3 (Some (Coordinate None None (Some (- 2)))),
              Drop_tips])"
  using pbs_wash_add_primitives
    [of "\<lparr>tips = tip_gen [[7 :: nat]], trace = []\<rparr>" 7 "[]" "''pbs''" "[''A1'', ''A2'']"]
  by (simp add: tip_gen_def PBS_VOL_def)

text \<open>
  Claim C3, as stated, fails for the reagent step: step 5 (add luciferase reagent) on two
  columns picks up two tips, not one shared tip.
\<close>

theorem reagent_add_shared_tip_counterexample:
  "pick_ups (trace (snd (add_luciferase_reagent ''luciferase'' [''A1'', ''A2'']
      \<lparr>tips = tip_gen [[1, 2 :: nat]], trace = []\<rparr>))) = 2"
  by (simp add: add_luciferase_reagent_def add_luciferase_reagent_cell_def and_then_def
      next_tips_def tip_gen_def issue_def pick_ups_def)

text \<open>
  Claim C3, amended. With a tip still to come for every target column, steps 1 (remove
  spent medium), 3 (PBS wash, remove) and 5 (add luciferase reagent) issue, for each column
  in order, one pick-up of the next tip, primitives that neither pick up nor drop, and
  one drop: one tip a column. Steps 2 (PBS wash, add) and 4 (add lysis buffer) issue one
  pick-up, then for each column primitives that neither pick up nor drop, then one drop
  (step 4 ends with its three-minute delay): one tip for all columns.
\<close>

theorem tip_policy:
  assumes "length cells \<le> length (remaining (tips s))"
    and "remaining (tips s) = tip # ts"
  shows
    "(\<exists>s' mid. remove_spent_medium waste cells s = (Inr (), s')
        \<and> trace s' = trace s @ concat (map2 (\<lambda>cell tip. Pick_up_tips tip # mid cell @ [Drop_tips])
                                          cells (remaining (tips s)))
        \<and> (\<forall>cell. pick_ups (mid cell) = 0 \<and> drops (mid cell) = 0))
   \<and> (\<exists>s' mid. pbs_wash_remove waste cells s = (Inr (), s')
        \<and> trace s' = trace s @ concat (map2 (\<lambda>cell tip. Pick_up_tips tip # mid cell @ [Drop_tips])
                                          cells (remaining (tips s)))
        \<and> (\<forall>cell. pick_ups (mid cell) = 0 \<and> drops (mid cell) = 0))
   \<and> (\<exists>s' mid. add_luciferase_reagent luciferase cells s = (Inr (), s')
        \<and> trace s' = trace s @ concat (map2 (\<lambda>cell tip. Pick_up_tips tip # mid cell @ [Drop_tips])
                                          cells (remaining (tips s)))
        \<and> (\<forall>cell. pick_ups (mid cell) = 0 \<and> drops (mid cell) = 0))
   \<and> (\<exists>s' mid. pbs_wash_add pbs cells s = (Inr (), s')
        \<and> trace s' = trace s @ Pick_up_tips tip # concat (map mid cells) @ [Drop_tips]
        \<and> (\<forall>cell. pick_ups (mid cell) = 0 \<and> drops (mid cell) = 0))
   \<and> (\<exists>s' mid. add_lysis_buffer lysis cells s = (Inr (), s')
        \<and> trace s' = trace s @ Pick_up_tips tip # concat (map mid cells)
                        @ [Drop_tips, Delay_minutes 3]
        \<and> (\<forall>cell. pick_ups (mid cell) = 0 \<and> drops (mid cell) = 0))"
proof -
  from assms(2) have l: "live s (tip # ts) (trace s)"
    by (auto simp: live_def)
  from assms have len: "length cells \<le> length (tip # ts)" by simp
  have 1: "\<exists>s' mid. remove_spent_medium waste cells s = (Inr (), s')
        \<and> trace s' = trace s @ concat (map2 (\<lambda>cell tip. Pick_up_tips tip # mid cell @ [Drop_tips])
                                          cells (remaining (tips s)))
        \<and> (\<forall>cell. pick_ups (mid cell) = 0 \<and> drops (mid cell) = 0)"
  proof -
    from remove_spent_medium_run [OF l, of waste cells] len assms(2) obtain s' where
      "remove_spent_medium waste cells s = (Inr (), s')"
      "trace s' = trace s @ concat (map2 (medium_block waste) cells (remaining (tips s)))"
      by auto
    then show ?thesis
      by (intro exI [of _ s'] exI [of _ "\<lambda>cell. butlast (tl (medium_block waste cell tip))"])
         (simp add: medium_block_def pick_ups_def drops_def)
  qed
  have 3: "\<exists>s' mid. pbs_wash_remove waste cells s = (Inr (), s')
        \<and> trace s' = trace s @ concat (map2 (\<lambda>cell tip. Pick_up_tips tip # mid cell @ [Drop_tips])
                                          cells (remaining (tips s)))
        \<and> (\<forall>cell. pick_ups (mid cell) = 0 \<and> drops (mid cell) = 0)"
  proof -
    from pbs_wash_remove_run [OF l, of waste cells] len assms(2) obtain s' where
      "pbs_wash_remove waste cells s = (Inr (), s')"
      "trace s' = trace s @ concat (map2 (wash_remove_block waste) cells (remaining (tips s)))"
      by auto
    then show ?thesis
      by (intro exI [of _ s'] exI [of _ "\<lambda>cell. butlast (tl (wash_remove_block waste cell tip))"])
         (simp add: wash_remove_block_def pick_ups_def drops_def)
  qed
  have 5: "\<exists>s' mid. add_luciferase_reagent luciferase cells s = (Inr (), s')
        \<and> trace s' = trace s @ concat (map2 (\<lambda>cell tip. Pick_up_tips tip # mid cell @ [Drop_tips])
                                          cells (remaining (tips s)))
        \<and> (\<forall>cell. pick_ups (mid cell) = 0 \<and> drops (mid cell) = 0)"
  proof -
    from add_luciferase_reagent_run [OF l, of luciferase cells] len assms(2) obtain s' where
      "add_luciferase_reagent luciferase cells s = (Inr (), s')"
      "trace s' = trace s @ concat (map2 (luciferase_block luciferase) cells (remaining (tips s)))"
      by auto
    then show ?thesis
      by (intro exI [of _ s']
            exI [of _ "\<lambda>cell. butlast (tl (luciferase_block luciferase cell tip))"])
         (simp add: luciferase_block_def pick_ups_def drops_def)
  qed
  have 2: "\<exists>s' mid. pbs_wash_add pbs cells s = (Inr (), s')
        \<and> trace s' = trace s @ Pick_up_tips tip # concat (map mid cells) @ [Drop_tips]
        \<and> (\<forall>cell. pick_ups (mid cell) = 0 \<and> drops (mid cell) = 0)"
  proof -
    from pbs_wash_add_run [OF l, of pbs cells] obtain s' where
      "pbs_wash_add pbs cells s = (Inr (), s')"
      "trace s' = trace s @ Pick_up_tips tip # concat (map (wash_add_block pbs) cells) @ [Drop_tips]"
      by auto
    then show ?thesis
      by (intro exI [of _ s'] exI [of _ "wash_add_block pbs"])
         (simp add: wash_add_block_def pick_ups_def drops_def)
  qed
  have 4: "\<exists>s' mid. add_lysis_buffer lysis cells s = (Inr (), s')
        \<and> trace s' = trace s @ Pick_up_tips tip # concat (map mid cells)
                        @ [Drop_tips, Delay_minutes 3]
        \<and> (\<forall>cell. pick_ups (mid cell) = 0 \<and> drops (mid cell) = 0)"
  proof -
    from add_lysis_buffer_run [OF l, of lysis cells] obtain s' where
      "add_lysis_buffer lysis cells s = (Inr (), s')"
      "trace s' = trace s @ Pick_up_tips tip # concat (map (lysis_block lysis) cells)
                   @ [Drop_tips, Delay_minutes 3]"
      by auto
    then show ?thesis
      by (intro exI [of _ s'] exI [of _ "lysis_block lysis"])
         (simp add: lysis_block_def pick_ups_def drops_def)
  qed
  from 1 2 3 4 5 show ?thesis by blast
qed

text \<open>Steps 5 and 2 of the amended claim on two columns and two tips.\<close>

theorem tip_policy_witness:
  "length [''A1'', ''A2''] \<le> length (remaining (tips \<lparr>tips = tip_gen [[1, 2 :: nat]], trace = []\<rparr>))
   \<and> remaining (tips \<lparr>tips = tip_gen [[1, 2 :: nat]], trace = []\<rparr>) = 1 # [2]
   \<and> (\<exists>s' mid. add_luciferase_reagent ''luciferase'' [''A1'', ''A2'']
                  \<lparr>tips = tip_gen [[1, 2 :: nat]], trace = []\<rparr> = (Inr (), s')
        \<and> trace s' = [] @ concat (map2 (\<lambda>cell tip. Pick_up_tips tip # mid cell @ [Drop_tips])
              [''A1'', ''A2''] (remaining (tips \<lparr>tips = tip_gen [[1, 2 :: nat]], trace = []\<rparr>)))
        \<and> (\<forall>cell. pick_ups (mid cell) = 0 \<and> drops (mid cell) = 0))
   \<and> (\<exists>s' mid. pbs_wash_add ''pbs'' [''A1'', ''A2'']
                  \<lparr>tips = tip_gen [[1, 2 :: nat]], trace = []\<rparr> = (Inr (), s')
        \<and> trace s' = [] @ Pick_up_tips 1 # concat (map mid [''A1'', ''A2'']) @ [Drop_tips]
        \<and> (\<forall>cell. pick_ups (mid cell) = 0 \<and> drops (mid cell) = 0))"
proof -
  let ?s = "\<lparr>tips = tip_gen [[1, 2 :: nat]], trace = [] :: (nat, string) primitive list\<rparr>"
  have h1: "length [''A1'', ''A2''] \<le> length (remaining (tips ?s))"
    by (simp add: tip_gen_def)
  have h2: "remaining (tips ?s) = 1 # [2]"
    by (simp add: tip_gen_def)
  from tip_policy [OF h1 h2, where waste = "''waste''" and luciferase = "''luciferase''"
      and pbs = "''pbs''" and lysis = "''lysis''"] h1 h2
  show ?thesis by simp
qed

section \<open>The sample columns\<close>

text \<open>
  Claim C4, as stated, fails: asking for three columns of a row of two wells raises
  nothing; the slice returns the two wells.
\<close>

theorem sample_columns_no_error_counterexample:
  "sample_columns \<lparr>wells = [''A1'', ''A2''], rows = [[''A1'', ''A2'']]\<rparr> 3 = Inr [''A1'', ''A2'']"
  by (simp add: sample_columns_def getitem_def slice_to_def)

text \<open>
  Claim C4, amended. On a plate with a first row, selecting \<open>k \<ge> 0\<close> sample columns
  returns the first \<open>k\<close> wells of that row: when \<open>k\<close> is at most the length of the row
  these are exactly \<open>k\<close> wells, the \<open>i\<close>-th of them the well of column \<open>i\<close>; when \<open>k\<close>
  exceeds the length of the row it is the whole row, and no exception is raised.
\<close>

theorem sample_columns_first_k:
  assumes "rows plate = row # more_rows" and "0 \<le> k"
  shows "sample_columns plate k = Inr (take (nat k) row)
     \<and> (k \<le> int (length row) \<longrightarrow>
          length (take (nat k) row) = nat k \<and> (\<forall>i < nat k. take (nat k) row ! i = row ! i))
     \<and> (int (length row) < k \<longrightarrow> take (nat k) row = row)"
  using assms by (auto simp: sample_columns_def getitem_def slice_to_def)

text \<open>Two and five columns of a row of three wells.\<close>

theorem sample_columns_first_k_witness:
  "rows \<lparr>wells = [''A1'', ''A2'', ''A3''], rows = [[''A1'', ''A2'', ''A3'']]\<rparr> = [''A1'', ''A2'', ''A3''] # []
   \<and> (0 :: int) \<le> 2
   \<and> sample_columns \<lparr>wells = [''A1'', ''A2'', ''A3''], rows = [[''A1'', ''A2'', ''A3'']]\<rparr> 2
       = Inr [''A1'', ''A2'']
   \<and> sample_columns \<lparr>wells = [''A1'', ''A2'', ''A3''], rows = [[''A1'', ''A2'', ''A3'']]\<rparr> 5
       = Inr [''A1'', ''A2'', ''A3'']"
  using sample_columns_first_k
    [of "\<lparr>wells = [''A1'', ''A2'', ''A3''], rows = [[''A1'', ''A2'', ''A3'']]\<rparr>"
        "[''A1'', ''A2'', ''A3'']" "[]" 2]
    sample_columns_first_k
    [of "\<lparr>wells = [''A1'', ''A2'', ''A3''], rows = [[''A1'', ''A2'', ''A3'']]\<rparr>"
        "[''A1'', ''A2'', ''A3'']" "[]" 5]
  by (simp add: numeral_2_eq_2)

section \<open>The whole run\<close>

lemma run_from_deck_protocol:
  fixes deck :: "('tip, 'well) deck"
  assumes "wells (reagent_res deck) = pbs # lysis # luciferase # more_reagents"
    and "wells (waste_res deck) = waste # more_waste"
    and "rows (working_plate deck) = row # more_rows"
  shows "run_from_deck deck =
     (if length (concat (tip_racks deck)) < 3 * length (take 12 row) + 2
      then Inl (RuntimeError ''Out of tips!'') else Inr (),
      expected_trace pbs lysis luciferase waste (take 12 row) (concat (tip_racks deck)))"
proof -
  let ?s = "\<lparr>tips = tip_gen (tip_racks deck), trace = []\<rparr> :: ('tip, 'well) state"
  have "live ?s (concat (tip_racks deck)) []"
    by (simp add: live_def tip_gen_def)
  from protocol_steps_run [OF this, of pbs lysis luciferase waste "take 12 row"]
  obtain s' where
    "protocol_steps pbs lysis luciferase waste (take 12 row) ?s =
       (if length (concat (tip_racks deck)) < 3 * length (take 12 row) + 2
        then Inl (RuntimeError ''Out of tips!'') else Inr (), s')"
    "trace s' = expected_trace pbs lysis luciferase waste (take 12 row) (concat (tip_racks deck))"
    by auto
  with assms show ?thesis
    by (simp add: run_from_deck_def getitem_def sample_columns_def slice_to_def TOTAL_COL_def)
qed

lemma protocol_outcome_cases:
  "(if length ts < 3 * length cells + 2 then Inl (RuntimeError ''Out of tips!'') else Inr (),
    expected_trace pbs lysis luciferase waste cells ts) =
   (let n = length cells;
        step1 = concat (map2 (medium_block waste) cells ts);
        step2 = Pick_up_tips (ts ! n) # concat (map (wash_add_block pbs) cells) @ [Drop_tips];
        step3 = concat (map2 (wash_remove_block waste) cells (drop (n + 1) ts));
        step4 = Pick_up_tips (ts ! (2 * n + 1)) # concat (map (lysis_block lysis) cells)
                  @ [Drop_tips, Delay_minutes 3];
        step5 = concat (map2 (luciferase_block luciferase) cells (drop (2 * n + 2) ts))
    in if length ts \<le> n then
         (Inl (RuntimeError ''Out of tips!''), Setup # step1)
       else if length ts \<le> 2 * n + 1 then
         (Inl (RuntimeError ''Out of tips!''), Setup # step1 @ step2 @ step3)
       else if length ts < 3 * n + 2 then
         (Inl (RuntimeError ''Out of tips!''), Setup # step1 @ step2 @ step3 @ step4 @ step5)
       else
         (Inr (), Setup # step1 @ step2 @ step3 @ step4 @ step5 @ [Finish]))"
  by (simp add: expected_trace_def Let_def)

text \<open>
  From a built deck whose racks hold exactly one tip, whose reservoirs have the wells the
  aliases read and whose plate has at least two wells in its first row, the rest of
  \<^verbatim>\<open>run\<close> raises \<^verbatim>\<open>RuntimeError("Out of tips!")\<close> at the second tip acquisition: the trace
  is setup, then the first column of step 1 in full, and nothing for the second column.
\<close>

lemma one_tip_from_deck:
  assumes "concat (tip_racks deck) = [tip]"
    and "wells (reagent_res deck) = pbs # lysis # luciferase # more_reagents"
    and "wells (waste_res deck) = waste # more_waste"
    and "rows (working_plate deck) = (a1 # a2 # row) # more_rows"
  shows "run_from_deck deck =
     (Inl (RuntimeError ''Out of tips!''),
      [Setup,
       Pick_up_tips tip,
       Aspirate a1 (real_of_int MEDIUM_VOL * 1.2) 0.2
         (Some (Coordinate (Some (- 2.5)) (Some 0) (Some 0.2))),
       Dispense waste (real_of_int MEDIUM_VOL * 1.2) 3 (Some (Coordinate None None (Some (- 5)))),
       Drop_tips])"
  using run_from_deck_protocol [OF assms(2-4)] assms(1)
  by (simp add: expected_trace_def medium_block_def Let_def)

text \<open>The same on the concrete deck with its racks replaced by an empty rack and a rack of one tip.\<close>

lemma one_tip_from_deck_example:
  "run_from_deck (example_deck\<lparr>tip_racks := [[], [5]]\<rparr>) =
       (Inl (RuntimeError ''Out of tips!''),
        [Setup,
         Pick_up_tips 5,
         Aspirate ''A1'' 120 0.2 (Some (Coordinate (Some (- 2.5)) (Some 0) (Some 0.2))),
         Dispense ''waste'' 120 3 (Some (Coordinate None None (Some (- 5)))),
         Drop_tips])"
  using one_tip_from_deck [of "example_deck\<lparr>tip_racks := [[], [5]]\<rparr>" 5 "''PBS''" "''lysis''"
      "''luciferase''" "[''spare'']" "''waste''" "[]" "''A1''" "''A2''"
      "[''A3'', ''A4'', ''A5'', ''A6'', ''A7'', ''A8'', ''A9'', ''A10'', ''A11'', ''A12'']"
      "[[''B1'', ''B2'', ''B3'', ''B4'', ''B5'', ''B6'', ''B7'', ''B8'', ''B9'', ''B10'', ''B11'', ''B12'']]"]
  by (simp add: example_deck_def MEDIUM_VOL_def)

text \<open>
  From a built deck whose reservoirs have the wells the aliases read and whose plate has a
  first row, the trace of the rest of \<^verbatim>\<open>run\<close> is: setup, step 1, step 2, step 3, step 4,
  step 5, finish, each step contiguous and over the first twelve wells of the first row in
  the order of the row, with the tips taken in the order of the generator. A run that
  lacks tips is a prefix of this that ends where the next tip is missing, and raises.
\<close>

lemma protocol_order_from_deck:
  assumes "wells (reagent_res deck) = pbs # lysis # luciferase # more_reagents"
    and "wells (waste_res deck) = waste # more_waste"
    and "rows (working_plate deck) = row # more_rows"
  shows
    "let cells = take 12 row; n = length cells; ts = concat (tip_racks deck);
         step1 = concat (map2 (medium_block waste) cells ts);
         step2 = Pick_up_tips (ts ! n) # concat (map (wash_add_block pbs) cells) @ [Drop_tips];
         step3 = concat (map2 (wash_remove_block waste) cells (drop (n + 1) ts));
         step4 = Pick_up_tips (ts ! (2 * n + 1)) # concat (map (lysis_block lysis) cells)
                   @ [Drop_tips, Delay_minutes 3];
         step5 = concat (map2 (luciferase_block luciferase) cells (drop (2 * n + 2) ts))
     in run_from_deck deck =
       (if length ts \<le> n then
          (Inl (RuntimeError ''Out of tips!''), Setup # step1)
        else if length ts \<le> 2 * n + 1 then
          (Inl (RuntimeError ''Out of tips!''), Setup # step1 @ step2 @ step3)
        else if length ts < 3 * n + 2 then
          (Inl (RuntimeError ''Out of tips!''), Setup # step1 @ step2 @ step3 @ step4 @ step5)
        else
          (Inr (), Setup # step1 @ step2 @ step3 @ step4 @ step5 @ [Finish]))"
  using run_from_deck_protocol [OF assms]
  by (simp only: protocol_outcome_cases Let_def)





section \<open>The entry points\<close>

lemma assign_racks_keeps:
  "assign_racks lib slots f = Inr (returned, f') \<Longrightarrow>
     var_reagent_stock f' = var_reagent_stock f \<and> var_waste_res f' = var_waste_res f"
proof (induction slots arbitrary: f returned f')
  case Nil
  then show ?case by simp
next
  case (Cons slot_i slots)
  then show ?case
    by (fastforce simp: continue_with_def load_fast_def split: sum.splits option.splits prod.splits)
qed

text \<open>
  No statement of \<^verbatim>\<open>_build_deck\<close> before the one that reads \<^verbatim>\<open>reagent_stock\<close> (or
  \<^verbatim>\<open>waste_res\<close>) binds that name.
\<close>

lemma reagent_stock_unbound_on_arrival:
  assumes "statements [set_tiprack_slots, set_tiprack_i lib, set_tiprack lib,
             set_working_plate lib, place_working_plate lib] f = Inr f'"
  shows "var_reagent_stock f' = var_reagent_stock f"
  using assms
  by (auto simp: continue_with_def load_fast_def set_tiprack_slots_def set_tiprack_i_def
      set_tiprack_def set_working_plate_def place_working_plate_def
      split: sum.splits option.splits prod.splits dest!: assign_racks_keeps)

lemma waste_res_unbound_on_arrival:
  assumes "statements [set_tiprack_slots, set_tiprack_i lib, set_tiprack lib,
             set_working_plate lib, place_working_plate lib,
             set_reagent_stock lib, place_reagent_stock lib] f = Inr f'"
  shows "var_waste_res f' = var_waste_res f"
  using assms
  by (auto simp: continue_with_def load_fast_def set_tiprack_slots_def set_tiprack_i_def
      set_tiprack_def set_working_plate_def place_working_plate_def
      set_reagent_stock_def place_reagent_stock_def
      split: sum.splits option.splits prod.splits dest!: assign_racks_keeps)

text \<open>
  In a namespace that does not bind \<^verbatim>\<open>MyBackend\<close>, \<^verbatim>\<open>run\<close> raises at its first statement;
  the namespaces of both scripts are such.
\<close>

lemma run_in_unbound_backend:
  "map_of globals ''MyBackend'' = None \<Longrightarrow> run_in globals arg = (Inl (NameError ''MyBackend''), [])"
  by (simp add: run_in_def load_global_def builtin_names_def)

lemma run_NameError:
  "run lib arg = (Inl (NameError ''MyBackend''), [])"
  unfolding run_def
  by (rule run_in_unbound_backend) (simp add: ot2plr_globals_def)

lemma run_async_body_NameError:
  "run_async_body lib simulation = (Inl (NameError ''MyBackend''), [])"
  by (simp add: run_async_body_def load_global_def assay_globals_def builtin_names_def)

lemma build_deck_UnboundLocalError:
  "build_deck lib lh = Inl (UnboundLocalError ''tiprack'')"
  by (simp add: build_deck_def set_tiprack_slots_def set_tiprack_i_def entry_locals_def
      continue_with_def load_fast_def)



text \<open>
  Claim C1, as stated, fails for the assay script: its \<^verbatim>\<open>run\<close> is a coroutine function,
  and calling it, as the script itself does, raises nothing; the call returns a coroutine
  that holds the \<^verbatim>\<open>NameError\<close> for whoever awaits it.
\<close>

theorem run_async_call_counterexample:
  "run_async example_library (Some True)
     = (Inr (Coroutine (Inl (NameError ''MyBackend''), [])), [])"
  by (simp add: run_async_def run_async_simulation_def run_async_body_NameError)

text \<open>
  Claim C1, amended. Called with any argument or none, \<^verbatim>\<open>run\<close> of \<^verbatim>\<open>ot2plr.py\<close> raises
  \<^verbatim>\<open>NameError\<close> and issues no primitive: its first statement reads the global \<^verbatim>\<open>MyBackend\<close>,
  which the module does not bind, so the error comes at the construction of the backend,
  before \<^verbatim>\<open>_build_deck\<close> is entered, whatever \<^verbatim>\<open>_build_deck\<close> is bound to. Calling \<^verbatim>\<open>run\<close> of
  the assay script raises nothing and issues nothing: it returns a coroutine, and awaiting
  that coroutine raises the same \<^verbatim>\<open>NameError\<close> before any primitive. \<^verbatim>\<open>_build_deck\<close> itself,
  on any handler and with any library, raises \<^verbatim>\<open>UnboundLocalError\<close>, a \<^verbatim>\<open>NameError\<close>, at its
  second statement, which reads the local \<^verbatim>\<open>tiprack\<close> before it is assigned; the
  statements that read \<^verbatim>\<open>reagent_stock\<close> and \<^verbatim>\<open>waste_res\<close> raise the same way in a frame
  where the name is unbound.
\<close>

theorem run_raises_NameError:
  "run lib arg = (Inl (NameError ''MyBackend''), [])
   \<and> run_in ((''_build_deck'', builder) # ot2plr_globals lib) arg
       = (Inl (NameError ''MyBackend''), [])
   \<and> run_async lib arg = (Inr (Coroutine (run_async_body lib (run_async_simulation arg))), [])
   \<and> await_coroutine (Coroutine (run_async_body lib (run_async_simulation arg)))
       = (Inl (NameError ''MyBackend''), [])
   \<and> is_NameError (NameError ''MyBackend'')
   \<and> build_deck lib lh = Inl (UnboundLocalError ''tiprack'')
   \<and> is_NameError (UnboundLocalError ''tiprack'')
   \<and> set_reagent_stock lib (f\<lparr>var_reagent_stock := None\<rparr>)
         = Inl (UnboundLocalError ''reagent_stock'')
   \<and> set_waste_res lib (f\<lparr>var_waste_res := None\<rparr>) = Inl (UnboundLocalError ''waste_res'')"
proof -
  have r2: "run_in ((''_build_deck'', builder) # ot2plr_globals lib) arg
       = (Inl (NameError ''MyBackend''), [])"
    by (rule run_in_unbound_backend) (simp add: ot2plr_globals_def)
  have c: "run_async lib arg
      = (Inr (Coroutine (run_async_body lib (run_async_simulation arg))), [])"
    by (simp add: run_async_def)
  have s1: "set_reagent_stock lib (f\<lparr>var_reagent_stock := None\<rparr>)
         = Inl (UnboundLocalError ''reagent_stock'')"
    by (simp add: set_reagent_stock_def continue_with_def load_fast_def)
  have s2: "set_waste_res lib (f\<lparr>var_waste_res := None\<rparr>) = Inl (UnboundLocalError ''waste_res'')"
    by (simp add: set_waste_res_def continue_with_def load_fast_def)
  from run_NameError [of lib arg] r2 c run_async_body_NameError [of lib]
    build_deck_UnboundLocalError [of lib lh] s1 s2
  show ?thesis by simp
qed

text \<open>
  Claim C8, at every call of \<^verbatim>\<open>run\<close>: the run ends with the \<^verbatim>\<open>NameError\<close> for \<^verbatim>\<open>MyBackend\<close>,
  not with tip exhaustion, and has picked up no tip, whatever tips the library's racks
  hold.
\<close>

theorem run_one_tip_not_reached:
  "fst (run lib arg) = Inl (NameError ''MyBackend'')
   \<and> fst (run lib arg) \<noteq> Inl (RuntimeError ''Out of tips!'')
   \<and> pick_ups (snd (run lib arg)) = 0"
  by (simp add: run_NameError pick_ups_def)

text \<open>
  Claim C9, at every call of \<^verbatim>\<open>run\<close>: the run issues no primitive, not even setup, so
  none of the five steps executes.
\<close>

theorem run_issues_no_step:
  "snd (run lib arg) = [] \<and> Setup \<notin> set (snd (run lib arg))"
  by (simp add: run_NameError)




section \<open>One rack in four slots\<close>

text \<open>
  Over a list that holds the same rack four times, the generator yields the tips of that
  rack four times over.
\<close>

lemma tip_gen_same_rack:
  "\<exists>g. next_n (4 * length rack) (tip_gen [rack, rack, rack, rack])
           = (map Inr (rack @ rack @ rack @ rack), g)"
  using next_n_remaining [of "4 * length rack" "tip_gen [rack, rack, rack, rack]"]
  by (auto simp: tip_gen_def)

end
